theory Spec2Isabelle
  imports Main
begin

section \<open>Python strings\<close>

text \<open>
  A Python \<open>str\<close> is a sequence of Unicode code points, so it is modelled as a list of
  natural numbers. \<open>str\<close> turns an ASCII literal of the theory into such a list.
\<close>

type_synonym pystr = "nat list"

definition str :: "string \<Rightarrow> pystr" where
  "str cs = map of_char cs"

text \<open>
  \<open>isspace\<close> is the whitespace class of CPython (\<open>Py_UNICODE_ISSPACE\<close>): it is the class
  that \<open>str.strip()\<close> removes and that \<open>\s\<close> matches in a \<open>str\<close> pattern of \<open>re\<close>.
  Tab, line feed, vertical tab, form feed, carriage return, the separators 0x1C to 0x1F,
  space, NEL, no-break space and the Unicode space separators.
\<close>

definition isspace :: "nat \<Rightarrow> bool" where
  "isspace c \<longleftrightarrow>
     (9 \<le> c \<and> c \<le> 13) \<or> (28 \<le> c \<and> c \<le> 32) \<or> c = 133 \<or> c = 160 \<or> c = 5760 \<or>
     (8192 \<le> c \<and> c \<le> 8202) \<or> c = 8232 \<or> c = 8233 \<or> c = 8239 \<or> c = 8287 \<or> c = 12288"

text \<open>\<open>s.strip()\<close>: whitespace removed at both ends.\<close>

definition strip :: "pystr \<Rightarrow> pystr" where
  "strip s = rev (dropWhile isspace (rev (dropWhile isspace s)))"

text \<open>\<open>s.strip("\n")\<close>: line feeds removed at both ends.\<close>

definition strip_newlines :: "pystr \<Rightarrow> pystr" where
  "strip_newlines s = rev (dropWhile (\<lambda>c. c = 10) (rev (dropWhile (\<lambda>c. c = 10) s)))"

text \<open>\<open>sub in s\<close>: substring test.\<close>

fun contains :: "pystr \<Rightarrow> pystr \<Rightarrow> bool" where
  "contains [] sub = (sub = [])"
| "contains (c # cs) sub = (take (length sub) (c # cs) = sub \<or> contains cs sub)"

section \<open>Free-text normalization (parsers.py)\<close>

text \<open>
  \<open>re.sub('\s\s+', ' ', string)\<close>: the scan goes left to right; where two whitespace
  characters stand next to each other the match is greedy, takes the whole run and is
  replaced by one space (code point 32); any other character is copied.
\<close>

function sub_spaces :: "pystr \<Rightarrow> pystr" where
  "sub_spaces [] = []"
| "sub_spaces [c] = [c]"
| "sub_spaces (c # d # cs) =
     (if isspace c \<and> isspace d then 32 # sub_spaces (dropWhile isspace cs)
      else c # sub_spaces (d # cs))"
  by pat_completeness auto
termination
  by (relation "measure length") (auto simp: less_Suc_eq_le intro: le_trans [OF length_dropWhile_le])

definition strip_whitespaces :: "pystr \<Rightarrow> pystr" where
  "strip_whitespaces string = strip (sub_spaces string)"

text \<open>
  The normalization as the specification words it: every run of whitespace, of any
  length, becomes one space, and the ends are trimmed. It is compared with
  \<open>strip_whitespaces\<close> below.
\<close>

function collapse_runs_spec :: "pystr \<Rightarrow> pystr" where
  "collapse_runs_spec [] = []"
| "collapse_runs_spec (c # cs) =
     (if isspace c then 32 # collapse_runs_spec (dropWhile isspace cs)
      else c # collapse_runs_spec cs)"
  by pat_completeness auto
termination
  by (relation "measure length") (auto simp: less_Suc_eq_le length_dropWhile_le)

definition normalize_spec :: "pystr \<Rightarrow> pystr" where
  "normalize_spec s = strip (collapse_runs_spec s)"

text \<open>No two whitespace characters stand next to each other.\<close>

fun no_ws_pair :: "pystr \<Rightarrow> bool" where
  "no_ws_pair [] = True"
| "no_ws_pair [c] = True"
| "no_ws_pair (c # d # cs) = (\<not> (isspace c \<and> isspace d) \<and> no_ws_pair (d # cs))"

section \<open>The document tree (lxml)\<close>

text \<open>
  The exceptions that the functions of \<open>parsers.py\<close> can raise: \<open>IndexError\<close> from an index
  into an empty list, \<open>TypeError\<close> from an operation on \<open>None\<close>, \<open>ValueError\<close> from
  \<open>strptime\<close>. \<open>ExtractionError\<close> is the error the specification names; nothing in
  \<open>parsers.py\<close> raises it.
\<close>

datatype parse_error = IndexError | TypeError | ValueError | ExtractionError pystr

text \<open>
  An element of the parsed tree, as lxml shows it: \<open>.tag\<close>, \<open>.attrib\<close>, \<open>.text\<close> (the text
  before the first child, here \<open>etext\<close>), the children, and \<open>.tail\<close> (the text after the
  element's end, up to the next sibling). A missing text is \<open>None\<close>. A comment or a
  processing instruction, whose \<open>.tag\<close> is not a string in lxml, is an element whose tag is
  no element name. The document is its root element.
\<close>

datatype element =
  Element (tag: pystr) (attrib: "(pystr \<times> pystr) list") (etext: "pystr option")
    (children: "element list") (tail: "pystr option")

text \<open>
  \<open>iter\<close>: the element and its descendants in document order; \<open>opt_list\<close>: nothing for
  \<open>None\<close>; \<open>text_nodes\<close>: the text-node children of an element, the step \<open>text()\<close> of XPath.
\<close>

fun iter :: "element \<Rightarrow> element list" where
  "iter (Element tg at tx cs ta) = Element tg at tx cs ta # concat (map iter cs)"

definition opt_list :: "'a option \<Rightarrow> 'a list" where
  "opt_list v = (case v of None \<Rightarrow> [] | Some t \<Rightarrow> [t])"

definition text_nodes :: "element \<Rightarrow> pystr list" where
  "text_nodes e = opt_list (etext e) @ concat (map (\<lambda>c. opt_list (tail c)) (children e))"

section \<open>InfoTabParser\<close>

text \<open>
  The query of \<open>_parse_element\<close> is
  \<open>//span[text() = "element_name"]/../../td[2]/text()\<close>. A span matches when one of its text
  nodes equals the label; \<open>../..\<close> is the parent of its parent, here called the row;
  \<open>td[2]\<close> is the second \<open>td\<close> child of the row; \<open>text()\<close> are the text nodes of that cell.
  \<open>value_texts\<close> walks the tree in document order and collects them, so that the result has
  the order of the XPath node set also where rows are nested: \<open>sel\<close> says that the element
  is a selected cell, \<open>row\<close> that the parent is a row, and \<open>n\<close> counts the \<open>td\<close> children
  seen so far.
\<close>

definition is_label_span :: "pystr \<Rightarrow> element \<Rightarrow> bool" where
  "is_label_span element_name s \<longleftrightarrow> tag s = str ''span'' \<and> element_name \<in> set (text_nodes s)"

definition is_label_row :: "pystr \<Rightarrow> element \<Rightarrow> bool" where
  "is_label_row element_name g \<longleftrightarrow>
     (\<exists>p \<in> set (children g). \<exists>s \<in> set (children p). is_label_span element_name s)"

fun value_texts :: "pystr \<Rightarrow> bool \<Rightarrow> element \<Rightarrow> pystr list"
  and value_texts_children :: "pystr \<Rightarrow> bool \<Rightarrow> nat \<Rightarrow> bool \<Rightarrow> element list \<Rightarrow> pystr list" where
  "value_texts element_name sel (Element tg at tx cs ta) =
     (if sel then opt_list tx else []) @
     value_texts_children element_name (is_label_row element_name (Element tg at tx cs ta)) 0 sel cs"
| "value_texts_children element_name row n sel [] = []"
| "value_texts_children element_name row n sel (c # cs) =
     (let n' = (if tag c = str ''td'' then Suc n else n) in
      value_texts element_name (row \<and> tag c = str ''td'' \<and> n' = 2) c @
      (if sel then opt_list (tail c) else []) @
      value_texts_children element_name row n' sel cs)"

definition xpath_value_texts :: "element \<Rightarrow> pystr \<Rightarrow> pystr list" where
  "xpath_value_texts html_tree element_name = value_texts element_name False html_tree"

text \<open>
  \<open>_parse_element\<close> (a name of Isabelle cannot start with an underscore): the first text node,
  stripped; \<open>None\<close> when nothing is left. \<open>element_value[0]\<close> raises \<open>IndexError\<close> on the
  empty list.
\<close>

definition parse_element :: "element \<Rightarrow> pystr \<Rightarrow> parse_error + pystr option" where
  "parse_element html_tree element_name =
     (case xpath_value_texts html_tree element_name of
        [] \<Rightarrow> Inl IndexError
      | v # _ \<Rightarrow>
          (let element_value = strip v in
           if length element_value = 0 then Inr None else Inr (Some element_value)))"

definition get_bugtraq_id :: "element \<Rightarrow> parse_error + pystr option" where
  "get_bugtraq_id html_tree = parse_element html_tree (str ''Bugtraq ID:'')"

definition get_vuln_class :: "element \<Rightarrow> parse_error + pystr option" where
  "get_vuln_class html_tree = parse_element html_tree (str ''Class:'')"

definition is_vuln_remote :: "element \<Rightarrow> parse_error + pystr option" where
  "is_vuln_remote html_tree = parse_element html_tree (str ''Remote:'')"

definition is_vuln_local :: "element \<Rightarrow> parse_error + pystr option" where
  "is_vuln_local html_tree = parse_element html_tree (str ''Local:'')"

definition get_credit :: "element \<Rightarrow> parse_error + pystr option" where
  "get_credit html_tree = parse_element html_tree (str ''Credit:'')"

text \<open>
  The document has a row for the label: some element has a child with a child span whose
  text is the label.
\<close>

definition has_label_row :: "element \<Rightarrow> pystr \<Rightarrow> bool" where
  "has_label_row html_tree element_name \<longleftrightarrow>
     (\<exists>g \<in> set (iter html_tree). is_label_row element_name g)"

section \<open>DiscussionTabParser, ExploitTabParser, SolutionTabParser\<close>

text \<open>
  \<open>//div[@id="vulnerability"]\<close>, and the three loops over the children of the first such
  element: the tail of every \<open>br\<close> child is appended to the text accumulated so far. In the
  exploit and solution loops a tail that contains the fixed phrase ends the function with
  \<open>None\<close>. The result is \<open>Inr None\<close> for Python's \<open>None\<close>.
\<close>

definition is_vulnerability_div :: "element \<Rightarrow> bool" where
  "is_vulnerability_div e \<longleftrightarrow>
     tag e = str ''div'' \<and> map_of (attrib e) (str ''id'') = Some (str ''vulnerability'')"

definition xpath_vulnerability_div :: "element \<Rightarrow> element list" where
  "xpath_vulnerability_div html_tree = filter is_vulnerability_div (iter html_tree)"

fun discussion_loop :: "element list \<Rightarrow> pystr \<Rightarrow> pystr" where
  "discussion_loop [] discussion_text = discussion_text"
| "discussion_loop (br_tag # rest) discussion_text =
     (if tag br_tag = str ''br'' then
        (case tail br_tag of
           None \<Rightarrow> discussion_loop rest discussion_text
         | Some br_text \<Rightarrow> discussion_loop rest (discussion_text @ br_text))
      else discussion_loop rest discussion_text)"

definition get_discussion :: "element \<Rightarrow> parse_error + pystr option" where
  "get_discussion html_tree =
     (case xpath_vulnerability_div html_tree of
        [] \<Rightarrow> Inl IndexError
      | div_tag # _ \<Rightarrow> Inr (Some (strip_whitespaces (discussion_loop (children div_tag) []))))"

definition no_exploit_phrase :: pystr where
  "no_exploit_phrase = str ''Currently, we are not aware of any working exploits.''"

fun exploit_loop :: "element list \<Rightarrow> pystr \<Rightarrow> pystr option" where
  "exploit_loop [] exploit_description = Some exploit_description"
| "exploit_loop (br_tag # rest) exploit_description =
     (if tag br_tag = str ''br'' then
        (case tail br_tag of
           None \<Rightarrow> exploit_loop rest exploit_description
         | Some text \<Rightarrow>
             if contains text no_exploit_phrase then None
             else exploit_loop rest (exploit_description @ text))
      else exploit_loop rest exploit_description)"

definition get_exploit_description :: "element \<Rightarrow> parse_error + pystr option" where
  "get_exploit_description html_tree =
     (case xpath_vulnerability_div html_tree of
        [] \<Rightarrow> Inl IndexError
      | div_tag # _ \<Rightarrow> Inr (map_option strip_whitespaces (exploit_loop (children div_tag) [])))"

definition no_solution_phrase :: pystr where
  "no_solution_phrase = str ''Currently we are not aware of any''"

fun solution_loop :: "element list \<Rightarrow> pystr \<Rightarrow> pystr option" where
  "solution_loop [] solution_description = Some solution_description"
| "solution_loop (br_tag # rest) solution_description =
     (if tag br_tag = str ''br'' then
        (case tail br_tag of
           None \<Rightarrow> solution_loop rest solution_description
         | Some text \<Rightarrow>
             if contains text no_solution_phrase then None
             else solution_loop rest (solution_description @ text))
      else solution_loop rest solution_description)"

definition get_solution :: "element \<Rightarrow> parse_error + pystr option" where
  "get_solution html_tree =
     (case xpath_vulnerability_div html_tree of
        [] \<Rightarrow> Inl IndexError
      | div_tag # _ \<Rightarrow> Inr (map_option strip_whitespaces (solution_loop (children div_tag) [])))"

text \<open>
  The break-tail text fragments of the vulnerability section: the tails of the \<open>br\<close>
  children of the first \<open>div\<close> with id \<open>vulnerability\<close>, in document order.
\<close>

definition br_tails :: "element list \<Rightarrow> pystr list" where
  "br_tails cs = concat (map (\<lambda>c. if tag c = str ''br'' then opt_list (tail c) else []) cs)"

definition break_tails :: "element \<Rightarrow> pystr list" where
  "break_tails html_tree = br_tails (children (hd (xpath_vulnerability_div html_tree)))"

section \<open>Example documents\<close>

text \<open>
  Builders for the documents at which the theorems are evaluated: an element with no
  attribute and no text, a \<open>br\<close> with a tail, a page with a vulnerability section, a row
  \<open><tr><td><span>label</span></td><td>value</td></tr>\<close> and an info page made of rows.
\<close>

definition el :: "string \<Rightarrow> element list \<Rightarrow> element" where
  "el t cs = Element (str t) [] None cs None"

definition br :: "string \<Rightarrow> element" where
  "br t = Element (str ''br'') [] None [] (Some (str t))"

definition tab_page :: "element list \<Rightarrow> element" where
  "tab_page cs = el ''html'' [el ''body''
     [Element (str ''div'') [(str ''id'', str ''vulnerability'')] None cs None]]"

definition info_row :: "string \<Rightarrow> pystr option \<Rightarrow> element" where
  "info_row label v = el ''tr''
     [el ''td'' [Element (str ''span'') [] (Some (str label)) [] None],
      Element (str ''td'') [] v [] None]"

definition info_page :: "element list \<Rightarrow> element" where
  "info_page rows = el ''html'' [el ''body'' [el ''table'' rows]]"


section \<open>Date fields\<close>










definition ascii_lower :: "nat \<Rightarrow> nat" where
  "ascii_lower c = (if 65 \<le> c \<and> c \<le> 90 then c + 32 else c)"




























section \<open>ReferenceTabParser\<close>

text \<open>
  A reference is the dictionary with the keys \<open>description\<close> and \<open>url\<close>.
  \<open>reference_parent_tags\<close> is \<open>//div[@id="vulnerability"]/ul\<close> in document order, and
  \<open>xpath_a_href\<close> is \<open>a/@href\<close> from a list item. \<open>urllib.parse\<close> is not part of the
  repository: \<open>urlparse_netloc\<close> stands for \<open>urlparse(url).netloc\<close> and \<open>urljoin\<close> for
  \<open>urljoin\<close>, both parameters that may raise; \<open>self_url\<close> is the base URL the parser was
  built with. \<open>a_tag.text + a_tag.tail\<close> raises \<open>TypeError\<close> when one of them is \<open>None\<close>.
\<close>

record reference =
  description :: pystr
  url :: pystr

fun reference_parent_tags :: "bool \<Rightarrow> element \<Rightarrow> element list" where
  "reference_parent_tags in_div (Element tg at tx cs ta) =
     (if in_div \<and> tg = str ''ul'' then [Element tg at tx cs ta] else []) @
     concat (map (reference_parent_tags (is_vulnerability_div (Element tg at tx cs ta))) cs)"

definition get_reference_parent_tag :: "element \<Rightarrow> parse_error + element" where
  "get_reference_parent_tag html_tree =
     (case reference_parent_tags False html_tree of
        [] \<Rightarrow> Inl IndexError
      | ul # _ \<Rightarrow> Inr ul)"

definition xpath_a_href :: "element \<Rightarrow> pystr list" where
  "xpath_a_href li =
     concat (map (\<lambda>a. if tag a = str ''a'' then opt_list (map_of (attrib a) (str ''href'')) else [])
       (children li))"

definition is_relative_url :: "(pystr \<Rightarrow> parse_error + pystr) \<Rightarrow> pystr \<Rightarrow> parse_error + bool" where
  "is_relative_url urlparse_netloc u =
     (case urlparse_netloc u of Inl e \<Rightarrow> Inl e | Inr netloc \<Rightarrow> Inr (length netloc = 0))"

fun references_loop ::
  "(pystr \<Rightarrow> parse_error + pystr) \<Rightarrow> (pystr \<Rightarrow> pystr \<Rightarrow> parse_error + pystr) \<Rightarrow> pystr option \<Rightarrow>
   element list \<Rightarrow> reference list \<Rightarrow> parse_error + reference list" where
  "references_loop urlparse_netloc urljoin self_url [] references_list = Inr references_list"
| "references_loop urlparse_netloc urljoin self_url (li # rest) references_list =
     (case children li of
        [] \<Rightarrow> Inl IndexError
      | a_tag # _ \<Rightarrow>
          (case (etext a_tag, tail a_tag) of
             (Some a_text, Some a_tail) \<Rightarrow>
               (case xpath_a_href li of
                  [] \<Rightarrow> Inl IndexError
                | href # _ \<Rightarrow>
                    (case is_relative_url urlparse_netloc href of
                       Inl e \<Rightarrow> Inl e
                     | Inr relative \<Rightarrow>
                         (case (if relative then self_url else None) of
                            None \<Rightarrow>
                              references_loop urlparse_netloc urljoin self_url rest
                                (references_list @
                                  [\<lparr>description = a_text @ a_tail, url = href\<rparr>])
                          | Some base \<Rightarrow>
                              (case urljoin base href of
                                 Inl e \<Rightarrow> Inl e
                               | Inr joined \<Rightarrow>
                                   references_loop urlparse_netloc urljoin self_url rest
                                     (references_list @
                                       [\<lparr>description = a_text @ a_tail, url = joined\<rparr>])))))
           | _ \<Rightarrow> Inl TypeError))"

definition get_references ::
  "(pystr \<Rightarrow> parse_error + pystr) \<Rightarrow> (pystr \<Rightarrow> pystr \<Rightarrow> parse_error + pystr) \<Rightarrow> pystr option \<Rightarrow>
   element \<Rightarrow> parse_error + reference list" where
  "get_references urlparse_netloc urljoin self_url html_tree =
     (case get_reference_parent_tag html_tree of
        Inl e \<Rightarrow> Inl e
      | Inr parent_ul_tag \<Rightarrow>
          references_loop urlparse_netloc urljoin self_url (children parent_ul_tag) [])"

text \<open>
  Example documents: an anchor with its trailing text, and a references page with the
  given list items.
\<close>

definition anchor :: "string \<Rightarrow> string \<Rightarrow> pystr option \<Rightarrow> element" where
  "anchor href label trailing =
     Element (str ''a'') [(str ''href'', str href)] (Some (str label)) [] trailing"

definition references_page :: "element list \<Rightarrow> element" where
  "references_page items = tab_page [el ''ul'' items]"

text \<open>
  A list item that the loop of \<open>get_references\<close> handles without raising, and the
  reference it gives when no base URL is set.
\<close>

definition item_reference :: "element \<Rightarrow> reference" where
  "item_reference li =
     \<lparr>description = the (etext (hd (children li))) @ the (tail (hd (children li))),
      url = hd (xpath_a_href li)\<rparr>"

definition well_formed_item :: "(pystr \<Rightarrow> parse_error + pystr) \<Rightarrow> element \<Rightarrow> bool" where
  "well_formed_item urlparse_netloc li \<longleftrightarrow>
     children li \<noteq> [] \<and> etext (hd (children li)) \<noteq> None \<and> tail (hd (children li)) \<noteq> None \<and>
     xpath_a_href li \<noteq> [] \<and> \<not> isl (urlparse_netloc (hd (xpath_a_href li)))"

section \<open>Storage (storage.py)\<close>

text \<open>
  The exceptions of \<open>storage.py\<close>: the \<open>JSONDecodeError\<close> of the JSON decoder, the
  \<open>Exception(*args, errors)\<close> that \<open>_read\<close> raises itself, and the errors of the operating
  system. The errors of a schema are a dictionary from field names to messages; an empty
  one is falsy.
\<close>

type_synonym errors = "(pystr \<times> pystr) list"

datatype storage_error =
  JSONDecodeError | Exception "pystr list" errors | FileNotFoundError | OSError

datatype schema = MetaSchema | VulnerabilityListSchema | VersionListSchema

text \<open>
  An entity handed to a write: \<open>.key\<close>, \<open>.producer\<close> (read for vulnerability lists only) and
  the rest of its content.
\<close>

record 'a item =
  key :: pystr
  producer :: pystr
  body :: 'a

text \<open>A directory entry of \<open>scandir\<close>: \<open>.name\<close> and \<open>.is_dir()\<close>.\<close>

record dir_entry =
  name :: pystr
  is_dir :: bool

datatype log_entry = Critical pystr "pystr list"

text \<open>
  What \<open>storage.py\<close> calls and the repository does not define is a parameter: the file
  system behind \<open>makedirs\<close>, \<open>open\<close> and \<open>scandir\<close>, over any type \<open>'fs\<close> of file system
  states, the collaborators \<open>serialize(schema, item)\<close> and \<open>schema.loads(text)\<close>, and the
  Unicode tables behind \<open>str.lower()\<close> and the class \<open>\w\<close> of \<open>re\<close>. A call of the operating
  system returns the error it raises, if any, and the file system it leaves. \<open>os_write\<close> is
  \<open>open(path, 'w')\<close> followed by \<open>fp.write(data)\<close>, \<open>os_append\<close> the same with mode \<open>a+\<close>,
  \<open>os_read\<close> is \<open>open(path, 'r')\<close> followed by \<open>fp.read()\<close>.
\<close>

record ('fs, 'a) env =
  os_makedirs :: "pystr \<Rightarrow> 'fs \<Rightarrow> storage_error option \<times> 'fs"
  os_write :: "pystr \<Rightarrow> pystr \<Rightarrow> 'fs \<Rightarrow> storage_error option \<times> 'fs"
  os_append :: "pystr \<Rightarrow> pystr \<Rightarrow> 'fs \<Rightarrow> storage_error option \<times> 'fs"
  os_read :: "pystr \<Rightarrow> 'fs \<Rightarrow> storage_error + pystr"
  os_scandir :: "pystr \<Rightarrow> 'fs \<Rightarrow> storage_error + dir_entry list"
  serialize :: "schema \<Rightarrow> 'a item \<Rightarrow> pystr \<times> errors"
  loads :: "schema \<Rightarrow> pystr \<Rightarrow> storage_error + ('a item \<times> errors)"
  str_lower :: "pystr \<Rightarrow> pystr"
  isalnum :: "nat \<Rightarrow> bool"

text \<open>
  A \<open>Storage\<close> instance (\<open>base_path\<close>, \<open>known\<close>) together with the world it acts on: the
  file system, the log of the logger, and a record of every \<open>makedirs\<close> call made (the
  relative path, the path passed, and whether the call returned).
\<close>

record 'fs storage =
  base_path :: pystr
  known :: "pystr set"
  fs :: 'fs
  makedirs_calls :: "(pystr \<times> pystr \<times> bool) list"
  log :: "log_entry list"

definition new_storage :: "pystr \<Rightarrow> 'fs \<Rightarrow> 'fs storage" where
  "new_storage base f = \<lparr>base_path = base, known = {}, fs = f, makedirs_calls = [], log = []\<rparr>"

text \<open>\<open>os.path.join\<close> and \<open>os.path.dirname\<close> of \<open>posixpath\<close>; 47 is the slash.\<close>

definition join2 :: "pystr \<Rightarrow> pystr \<Rightarrow> pystr" where
  "join2 p b =
     (if take 1 b = [47] then b
      else if p = [] \<or> last p = 47 then p @ b
      else p @ 47 # b)"

definition join :: "pystr \<Rightarrow> pystr list \<Rightarrow> pystr" where
  "join a ps = foldl join2 a ps"

definition dirname :: "pystr \<Rightarrow> pystr" where
  "dirname p =
     (let head = rev (dropWhile (\<lambda>c. c \<noteq> 47) (rev p)) in
      if head \<noteq> [] \<and> head \<noteq> replicate (length head) 47
      then rev (dropWhile (\<lambda>c. c = 47) (rev head))
      else head)"

text \<open>\<open>_path\<close>, \<open>_prepare_path\<close>, \<open>_write\<close>, \<open>_read\<close> and the public operations.\<close>

definition path :: "'fs storage \<Rightarrow> pystr list \<Rightarrow> pystr" where
  "path st args = join (base_path st) args"

definition prepare_path ::
  "('fs, 'a) env \<Rightarrow> pystr \<Rightarrow> 'fs storage \<Rightarrow> storage_error option \<times> 'fs storage" where
  "prepare_path env relative st =
     (if relative \<notin> known st then
        (case os_makedirs env (path st [relative]) (fs st) of
           (Some e, f) \<Rightarrow>
             (Some e, st\<lparr>fs := f,
                makedirs_calls := makedirs_calls st @ [(relative, path st [relative], False)]\<rparr>)
         | (None, f) \<Rightarrow>
             (None, st\<lparr>fs := f,
                makedirs_calls := makedirs_calls st @ [(relative, path st [relative], True)],
                known := insert relative (known st)\<rparr>))
      else (None, st))"

definition storage_write ::
  "('fs, 'a) env \<Rightarrow> schema \<Rightarrow> 'a item \<Rightarrow> pystr list \<Rightarrow> 'fs storage \<Rightarrow>
   storage_error option \<times> 'fs storage" where
  "storage_write env sch item args st =
     (case serialize env sch item of
        (data, errors) \<Rightarrow>
          (case prepare_path env (key item) st of
             (Some e, st') \<Rightarrow> (Some e, st')
           | (None, st') \<Rightarrow>
               (case os_write env (path st' (key item # args)) data (fs st') of
                  (r, f) \<Rightarrow> (r, st'\<lparr>fs := f\<rparr>))))"

definition write_meta ::
  "('fs, 'a) env \<Rightarrow> 'a item \<Rightarrow> 'fs storage \<Rightarrow> storage_error option \<times> 'fs storage" where
  "write_meta env meta = storage_write env MetaSchema meta [str ''META.json'']"

definition write_vulnerabilities ::
  "('fs, 'a) env \<Rightarrow> 'a item \<Rightarrow> 'fs storage \<Rightarrow> storage_error option \<times> 'fs storage" where
  "write_vulnerabilities env vlist =
     storage_write env VulnerabilityListSchema vlist
       [str ''vuln-'' @ str_lower env (producer vlist) @ str ''.json'']"

definition write_versions ::
  "('fs, 'a) env \<Rightarrow> 'a item \<Rightarrow> 'fs storage \<Rightarrow> storage_error option \<times> 'fs storage" where
  "write_versions env vlist = storage_write env VersionListSchema vlist [str ''versions.json'']"

definition append ::
  "('fs, 'a) env \<Rightarrow> pystr \<Rightarrow> pystr \<Rightarrow> 'fs storage \<Rightarrow> storage_error option \<times> 'fs storage" where
  "append env relative content st =
     (case prepare_path env (dirname relative) st of
        (Some e, st') \<Rightarrow> (Some e, st')
      | (None, st') \<Rightarrow>
          (case os_append env (path st' [relative]) (strip_newlines content @ [10]) (fs st') of
             (r, f) \<Rightarrow> (r, st'\<lparr>fs := f\<rparr>)))"

text \<open>
  \<open>_read\<close>: the \<open>try\<close> covers \<open>open\<close>, \<open>read\<close> and \<open>loads\<close>; a \<open>JSONDecodeError\<close> is caught,
  logged at critical level, and the function returns nothing (\<open>Inr None\<close>); any other
  exception leaves the function, and so does the \<open>Exception\<close> raised on errors.
\<close>

definition storage_read ::
  "('fs, 'a) env \<Rightarrow> schema \<Rightarrow> pystr list \<Rightarrow> 'fs storage \<Rightarrow>
   (storage_error + 'a item option) \<times> 'fs storage" where
  "storage_read env sch args st =
     (case (case os_read env (path st args) (fs st) of
              Inl e \<Rightarrow> Inl e
            | Inr text \<Rightarrow> loads env sch text) of
        Inl e \<Rightarrow>
          if e = JSONDecodeError
          then (Inr None, st\<lparr>log := log st @ [Critical (str ''JSON Decode error in %s'') args]\<rparr>)
          else (Inl e, st)
      | Inr (data, errors) \<Rightarrow>
          if errors \<noteq> [] then (Inl (Exception args errors), st)
          else (Inr (Some data), st))"

definition read_meta ::
  "('fs, 'a) env \<Rightarrow> pystr \<Rightarrow> 'fs storage \<Rightarrow> (storage_error + 'a item option) \<times> 'fs storage" where
  "read_meta env k = storage_read env MetaSchema [k, str ''META.json'']"

definition read_vulnerabilities ::
  "('fs, 'a) env \<Rightarrow> pystr \<Rightarrow> pystr \<Rightarrow> 'fs storage \<Rightarrow>
   (storage_error + 'a item option) \<times> 'fs storage" where
  "read_vulnerabilities env k producer_name =
     storage_read env VulnerabilityListSchema
       [k, str ''vuln-'' @ str_lower env producer_name @ str ''.json'']"

definition read_versions ::
  "('fs, 'a) env \<Rightarrow> pystr \<Rightarrow> 'fs storage \<Rightarrow> (storage_error + 'a item option) \<times> 'fs storage" where
  "read_versions env k = storage_read env VersionListSchema [k, str ''versions.json'']"

text \<open>
  \<open>re.compile(r'^vuln-(\w+)\.json$').match(name)\<close>, giving \<open>group(1)\<close>: after \<open>vuln-\<close> the
  group takes a run of word characters, the longest first, such that \<open>.json\<close> follows and
  the name ends there or with one line feed, which \<open>$\<close> allows. A word character is an
  alphanumeric one or the underscore.
\<close>

definition is_word :: "(nat \<Rightarrow> bool) \<Rightarrow> nat \<Rightarrow> bool" where
  "is_word alnum c \<longleftrightarrow> alnum c \<or> c = 95"

definition name_format_match :: "(nat \<Rightarrow> bool) \<Rightarrow> pystr \<Rightarrow> pystr option" where
  "name_format_match alnum nm =
     (if take 5 nm = str ''vuln-'' then
        (let rest = drop 5 nm in
         map_option (\<lambda>k. take k rest)
           (find (\<lambda>k. drop k rest = str ''.json'' \<or> drop k rest = str ''.json'' @ [10])
              (rev [1 ..< Suc (length (takeWhile (is_word alnum) rest))])))
      else None)"

text \<open>
  \<open>list_vulnerabilities\<close> is a generator: the model returns the values yielded, in order,
  and the exception that ended the iteration, if one did.
\<close>

fun list_loop ::
  "('fs, 'a) env \<Rightarrow> pystr \<Rightarrow> dir_entry list \<Rightarrow> 'fs storage \<Rightarrow>
   ('a item option list \<times> storage_error option) \<times> 'fs storage" where
  "list_loop env k [] st = (([], None), st)"
| "list_loop env k (entry # rest) st =
     (case name_format_match (isalnum env) (name entry) of
        None \<Rightarrow> list_loop env k rest st
      | Some group1 \<Rightarrow>
          if is_dir entry then list_loop env k rest st
          else
            (case read_vulnerabilities env k group1 st of
               (Inl e, st') \<Rightarrow> (([], Some e), st')
             | (Inr v, st') \<Rightarrow>
                 (case list_loop env k rest st' of
                    ((vs, r), st'') \<Rightarrow> ((v # vs, r), st''))))"

definition list_vulnerabilities ::
  "('fs, 'a) env \<Rightarrow> pystr \<Rightarrow> 'fs storage \<Rightarrow>
   ('a item option list \<times> storage_error option) \<times> 'fs storage" where
  "list_vulnerabilities env k st =
     (case os_scandir env (path st [k]) (fs st) of
        Inl e \<Rightarrow> (([], Some e), st)
      | Inr entries \<Rightarrow> list_loop env k entries st)"

text \<open>
  The entries of a listing that \<open>list_vulnerabilities\<close> reads, and what reading one gives:
  the result of \<open>read_vulnerabilities\<close> with the producer taken from the name.
\<close>

definition matching :: "('fs, 'a) env \<Rightarrow> dir_entry list \<Rightarrow> dir_entry list" where
  "matching env entries =
     filter (\<lambda>e. name_format_match (isalnum env) (name e) \<noteq> None \<and> \<not> is_dir e) entries"

definition read_entry ::
  "('fs, 'a) env \<Rightarrow> pystr \<Rightarrow> 'fs storage \<Rightarrow> dir_entry \<Rightarrow> storage_error + 'a item option" where
  "read_entry env k st e =
     fst (read_vulnerabilities env k (the (name_format_match (isalnum env) (name e))) st)"

text \<open>
  A sequence of write and append operations on one instance. An exception ends the
  operation, not the instance: the next operation starts from the state that was left.
\<close>

datatype 'a operation =
  Write_meta "'a item" | Write_vulnerabilities "'a item" | Write_versions "'a item"
  | Append pystr pystr

fun step :: "('fs, 'a) env \<Rightarrow> 'fs storage \<Rightarrow> 'a operation \<Rightarrow> 'fs storage" where
  "step env st (Write_meta m) = snd (write_meta env m st)"
| "step env st (Write_vulnerabilities v) = snd (write_vulnerabilities env v st)"
| "step env st (Write_versions v) = snd (write_versions env v st)"
| "step env st (Append relative content) = snd (append env relative content st)"

definition run :: "('fs, 'a) env \<Rightarrow> 'a operation list \<Rightarrow> 'fs storage \<Rightarrow> 'fs storage" where
  "run env ops st = foldl (step env) st ops"



text \<open>The number of \<open>makedirs\<close> calls for a relative path that returned.\<close>

definition created :: "'fs storage \<Rightarrow> pystr \<Rightarrow> nat" where
  "created st relative =
     length (filter (\<lambda>(r, p, ok). r = relative \<and> ok) (makedirs_calls st))"


section \<open>An example environment\<close>

text \<open>
  A file system in memory, for evaluating the theorems: files and directory listings are
  association lists, \<open>makedirs\<close> succeeds except on the path \<open>/denied\<close>, the serializer
  gives the body and reports the errors of the second argument, \<open>loads\<close> fails to decode
  \<open>{\<close> and reports an error for \<open>{}\<close>, and the tables are those of ASCII.
\<close>

record memfs =
  mem_files :: "(pystr \<times> pystr) list"
  mem_dirs :: "(pystr \<times> dir_entry list) list"

definition ascii_alnum :: "nat \<Rightarrow> bool" where
  "ascii_alnum c \<longleftrightarrow> (48 \<le> c \<and> c \<le> 57) \<or> (65 \<le> c \<and> c \<le> 90) \<or> (97 \<le> c \<and> c \<le> 122)"

definition mem_env :: "errors \<Rightarrow> (memfs, pystr) env" where
  "mem_env errs =
     \<lparr>os_makedirs = (\<lambda>p f. (if p = str ''/denied'' then Some OSError else None, f)),
      os_write = (\<lambda>p d f. (None, f\<lparr>mem_files := (p, d) # mem_files f\<rparr>)),
      os_append = (\<lambda>p d f. (None, f\<lparr>mem_files :=
         (p, (case map_of (mem_files f) p of None \<Rightarrow> [] | Some c \<Rightarrow> c) @ d) # mem_files f\<rparr>)),
      os_read = (\<lambda>p f. case map_of (mem_files f) p of
         None \<Rightarrow> Inl FileNotFoundError | Some c \<Rightarrow> Inr c),
      os_scandir = (\<lambda>p f. case map_of (mem_dirs f) p of
         None \<Rightarrow> Inl FileNotFoundError | Some es \<Rightarrow> Inr es),
      serialize = (\<lambda>sch i. (body i, errs)),
      loads = (\<lambda>sch text.
         if text = str ''{'' then Inl JSONDecodeError
         else Inr (\<lparr>key = [], producer = [], body = text\<rparr>,
           if text = str ''{}'' then [(str ''key'', str ''Missing data for required field.'')]
           else [])),
      str_lower = map ascii_lower,
      isalnum = ascii_alnum\<rparr>"

definition empty_fs :: memfs where
  "empty_fs = \<lparr>mem_files = [], mem_dirs = []\<rparr>"

text \<open>
  A file system with a directory \<open>/base/k\<close>: a META.json that does not decode, a
  versions.json with schema errors, two vulnerability lists, a directory whose name
  matches the pattern, and a file named vulnerabilities.json.
\<close>

definition example_fs :: memfs where
  "example_fs =
     \<lparr>mem_files =
        [(str ''/base/k/META.json'', str ''{''),
         (str ''/base/k/versions.json'', str ''{}''),
         (str ''/base/k/vuln-nvd.json'', str ''[1]''),
         (str ''/base/k/vuln-abc.json'', str ''[2]'')],
      mem_dirs =
        [(str ''/base/k'',
          [\<lparr>name = str ''vuln-nvd.json'', is_dir = False\<rparr>,
           \<lparr>name = str ''vulnerabilities.json'', is_dir = False\<rparr>,
           \<lparr>name = str ''vuln-old.json'', is_dir = True\<rparr>,
           \<lparr>name = str ''META.json'', is_dir = False\<rparr>,
           \<lparr>name = str ''vuln-abc.json'', is_dir = False\<rparr>])]\<rparr>"

text \<open>
  A file system with two directories: \<open>/base/k\<close> has three vulnerability lists, the
  second with schema errors, and \<open>/base/u\<close> has one whose name has capital letters.
\<close>

definition faulty_fs :: memfs where
  "faulty_fs =
     \<lparr>mem_files =
        [(str ''/base/k/vuln-nvd.json'', str ''[1]''),
         (str ''/base/k/vuln-bad.json'', str ''{}''),
         (str ''/base/k/vuln-abc.json'', str ''[2]''),
         (str ''/base/u/vuln-NVD.json'', str ''[3]'')],
      mem_dirs =
        [(str ''/base/k'',
          [\<lparr>name = str ''vuln-nvd.json'', is_dir = False\<rparr>,
           \<lparr>name = str ''vuln-bad.json'', is_dir = False\<rparr>,
           \<lparr>name = str ''vuln-abc.json'', is_dir = False\<rparr>]),
         (str ''/base/u'',
          [\<lparr>name = str ''vuln-NVD.json'', is_dir = False\<rparr>])]\<rparr>"




section \<open>Properties of the normalization\<close>

lemma isspace_32: "isspace 32"
  by (simp add: isspace_def)

lemma sub_spaces_Nil_iff: "sub_spaces xs = [] \<longleftrightarrow> xs = []"
  by (induction xs rule: sub_spaces.induct) auto

lemma sub_spaces_hd: "xs \<noteq> [] \<Longrightarrow> isspace (hd (sub_spaces xs)) = isspace (hd xs)"
  by (induction xs rule: sub_spaces.induct) (auto simp: isspace_32)

lemma no_ws_pair_Cons: "no_ws_pair (c # ys) \<longleftrightarrow> (ys = [] \<or> (\<not> (isspace c \<and> isspace (hd ys)) \<and> no_ws_pair ys))"
  by (cases ys) auto

lemma no_ws_pair_sub_spaces: "no_ws_pair (sub_spaces xs)"
proof (induction xs rule: sub_spaces.induct)
  case 1 show ?case by simp
next
  case (2 c) show ?case by simp
next
  case (3 c d cs)
  show ?case
  proof (cases "isspace c \<and> isspace d")
    case True
    then have ih: "no_ws_pair (sub_spaces (dropWhile isspace cs))" using 3 by simp
    show ?thesis
    proof (cases "dropWhile isspace cs = []")
      case True
      then have "sub_spaces (dropWhile isspace cs) = []" by (simp only: sub_spaces.simps)
      with \<open>isspace c \<and> isspace d\<close> show ?thesis by simp
    next
      case False
      then have "\<not> isspace (hd (sub_spaces (dropWhile isspace cs)))"
        by (simp add: sub_spaces_hd hd_dropWhile)
      with ih \<open>isspace c \<and> isspace d\<close> show ?thesis by (simp add: no_ws_pair_Cons)
    qed
  next
    case False
    then have ih: "no_ws_pair (sub_spaces (d # cs))" using 3 by simp
    have "isspace (hd (sub_spaces (d # cs))) = isspace d" by (simp add: sub_spaces_hd)
    with ih False show ?thesis by (auto simp: no_ws_pair_Cons sub_spaces_Nil_iff)
  qed
qed

lemma sub_spaces_id: "no_ws_pair xs \<Longrightarrow> sub_spaces xs = xs"
  by (induction xs rule: sub_spaces.induct) auto

lemma no_ws_pair_append: "no_ws_pair (xs @ ys) \<Longrightarrow> no_ws_pair xs \<and> no_ws_pair ys"
  by (induction xs rule: no_ws_pair.induct) (auto simp: no_ws_pair_Cons)

lemma rstrip_decomp: "ys = rev (dropWhile P (rev ys)) @ rev (takeWhile P (rev ys))"
  by (metis rev_append rev_rev_ident takeWhile_dropWhile_id)

lemma no_ws_pair_strip: assumes "no_ws_pair xs" shows "no_ws_pair (strip xs)"
proof -
  let ?ys = "dropWhile isspace xs"
  have "xs = takeWhile isspace xs @ ?ys" by simp
  with assms have a: "no_ws_pair ?ys" by (metis no_ws_pair_append)
  have "?ys = strip xs @ rev (takeWhile isspace (rev ?ys))"
    unfolding strip_def by (rule rstrip_decomp)
  with a show ?thesis by (metis no_ws_pair_append)
qed

lemma strip_ends: "strip s = [] \<or> (\<not> isspace (hd (strip s)) \<and> \<not> isspace (last (strip s)))"
proof (cases "strip s = []")
  case True then show ?thesis by simp
next
  case False
  let ?ys = "dropWhile isspace s"
  from False have ne: "dropWhile isspace (rev ?ys) \<noteq> []" by (simp add: strip_def)
  then have l: "\<not> isspace (last (strip s))" by (simp add: strip_def last_rev hd_dropWhile)
  from ne have ysne: "?ys \<noteq> []" by (metis dropWhile.simps(1) rev.simps(1))
  have "?ys = strip s @ rev (takeWhile isspace (rev ?ys))"
    unfolding strip_def by (rule rstrip_decomp)
  with False have "hd (strip s) = hd ?ys" by (metis hd_append2)
  with ysne have "\<not> isspace (hd (strip s))" by (simp add: hd_dropWhile)
  with l show ?thesis by simp
qed

lemma strip_id:
  assumes "s = [] \<or> (\<not> isspace (hd s) \<and> \<not> isspace (last s))"
  shows "strip s = s"
proof (cases "s = []")
  case True then show ?thesis by (simp add: strip_def)
next
  case False
  with assms have h: "\<not> isspace (hd s)" and l: "\<not> isspace (last s)" by auto
  from False h have a: "dropWhile isspace s = s" by (cases s) auto
  from False l have "\<not> isspace (hd (rev s))" by (simp add: hd_rev)
  with False have "dropWhile isspace (rev s) = rev s" by (cases "rev s") auto
  with a show ?thesis by (simp add: strip_def)
qed

lemma strip_strip: "strip (strip s) = strip s"
  using strip_ends strip_id by blast

lemma sub_spaces_Cons_nonspace: "\<not> isspace c \<Longrightarrow> sub_spaces (c # v) = c # sub_spaces v"
  by (cases v) auto

lemma sub_spaces_append:
  "u = [] \<or> \<not> isspace (last u) \<Longrightarrow> sub_spaces (u @ x) = sub_spaces u @ sub_spaces x"
proof (induction u rule: sub_spaces.induct)
  case 1 show ?case by simp
next
  case (2 c) then show ?case by (simp add: sub_spaces_Cons_nonspace)
next
  case (3 c d cs)
  show ?case
  proof (cases "isspace c \<and> isspace d")
    case True
    with 3(3) have ne: "cs \<noteq> []" and l: "\<not> isspace (last cs)" by (auto split: if_splits)
    then have ex: "last cs \<in> set cs \<and> \<not> isspace (last cs)" by simp
    then have dw: "dropWhile isspace (cs @ x) = dropWhile isspace cs @ x"
      by (metis dropWhile_append1)
    from ex have nn: "dropWhile isspace cs \<noteq> []" by (metis dropWhile_eq_Nil_conv)
    have "cs = takeWhile isspace cs @ dropWhile isspace cs" by simp
    with nn have "last (dropWhile isspace cs) = last cs" by (metis last_appendR)
    with l True 3(1) have "sub_spaces (dropWhile isspace cs @ x) =
        sub_spaces (dropWhile isspace cs) @ sub_spaces x" by simp
    with True dw show ?thesis by simp
  next
    case False
    with 3(3) have "\<not> isspace (last (d # cs))" by simp
    with False 3(2) have "sub_spaces ((d # cs) @ x) = sub_spaces (d # cs) @ sub_spaces x" by blast
    with False show ?thesis by auto
  qed
qed

lemma sub_spaces_run:
  assumes "w \<noteq> []" "\<forall>c\<in>set w. isspace c" "v = [] \<or> \<not> isspace (hd v)"
  shows "sub_spaces (w @ v) = (if 2 \<le> length w then [32] else w) @ sub_spaces v"
proof (cases w)
  case Nil with assms show ?thesis by simp
next
  case (Cons c w')
  show ?thesis
  proof (cases w')
    case Nil
    with Cons assms show ?thesis by (cases v) auto
  next
    case (Cons d w'')
    with \<open>w = c # w'\<close> assms have cd: "isspace c \<and> isspace d" and all: "\<forall>x\<in>set w''. isspace x" by auto
    from all have "dropWhile isspace (w'' @ v) = dropWhile isspace v" by (simp add: dropWhile_append2)
    also from assms(3) have "\<dots> = v" by (cases v) auto
    finally show ?thesis using cd Cons \<open>w = c # w'\<close> by simp
  qed
qed

lemma sub_spaces_last:
  "u \<noteq> [] \<Longrightarrow> \<not> isspace (last u) \<Longrightarrow> last (sub_spaces u) = last u"
proof (induction u rule: sub_spaces.induct)
  case 1 then show ?case by simp
next
  case (2 c) then show ?case by simp
next
  case (3 c d cs)
  show ?case
  proof (cases "isspace c \<and> isspace d")
    case True
    with 3(4) have ne: "cs \<noteq> []" and l: "\<not> isspace (last cs)" by (auto split: if_splits)
    then have nn: "dropWhile isspace cs \<noteq> []" by (metis dropWhile_eq_Nil_conv last_in_set)
    have "cs = takeWhile isspace cs @ dropWhile isspace cs" by simp
    with nn have ll: "last (dropWhile isspace cs) = last cs" by (metis last_appendR)
    with True nn l 3(1) have "last (sub_spaces (dropWhile isspace cs)) = last cs" by simp
    moreover from nn have "sub_spaces (dropWhile isspace cs) \<noteq> []"
      by (simp only: sub_spaces_Nil_iff not_False_eq_True)
    ultimately show ?thesis using True ne by (simp del: dropWhile_eq_Nil_conv)
  next
    case False
    with 3 show ?thesis by (auto simp: sub_spaces_Nil_iff)
  qed
qed

lemma strip_ws_prefix: "\<forall>c\<in>set w. isspace c \<Longrightarrow> strip (w @ x) = strip x"
  by (simp add: strip_def dropWhile_append2)

lemma strip_ws_suffix:
  assumes "\<forall>c\<in>set w. isspace c"
  shows "strip (x @ w) = strip x"
proof (cases "\<forall>c\<in>set x. isspace c")
  case True
  then have "dropWhile isspace x = []" by simp
  moreover from True assms have "dropWhile isspace (x @ w) = []" by simp
  ultimately show ?thesis by (simp only: strip_def)
next
  case False
  then obtain c where "c \<in> set x" "\<not> isspace c" by blast
  then have a: "dropWhile isspace (x @ w) = dropWhile isspace x @ w" by (metis dropWhile_append1)
  from assms have "dropWhile isspace (rev w @ y) = dropWhile isspace y" for y
    by (intro dropWhile_append2) simp
  with a show ?thesis by (simp add: strip_def)
qed

lemma strip_append3:
  assumes "a \<noteq> []" "\<not> isspace (last a)" "b \<noteq> []" "\<not> isspace (hd b)"
  shows "strip (a @ m @ b) = strip a @ m @ strip b"
proof -
  let ?a = "dropWhile isspace a"
  from assms(1,2) have "last a \<in> set a \<and> \<not> isspace (last a)" by simp
  then have l: "dropWhile isspace (a @ m @ b) = ?a @ m @ b" and ane: "?a \<noteq> []"
    by (metis dropWhile_append1, metis dropWhile_eq_Nil_conv)
  from assms(3,4) have "hd b \<in> set (rev b) \<and> \<not> isspace (hd b)" by simp
  then have r: "dropWhile isspace (rev b @ y) = dropWhile isspace (rev b) @ y" for y
    by (metis dropWhile_append1)
  have "a = takeWhile isspace a @ ?a" by simp
  with ane have "last ?a = last a" by (metis last_appendR)
  with ane assms(2) have "\<not> isspace (hd (rev ?a))" by (simp add: hd_rev)
  with ane have sa: "dropWhile isspace (rev ?a) = rev ?a" by (cases "rev ?a") auto
  from assms(3,4) have sb: "dropWhile isspace b = b" by (cases b) auto
  show ?thesis by (simp add: strip_def l r sa sb)
qed

lemma strip_whitespaces_nonspace:
  assumes "\<forall>c\<in>set s. \<not> isspace c" shows "strip_whitespaces s = s"
proof -
  from assms have "no_ws_pair s" by (induction s rule: no_ws_pair.induct) auto
  then have "sub_spaces s = s" by (rule sub_spaces_id)
  moreover from assms have "strip s = s" by (intro strip_id) (cases s, auto)
  ultimately show ?thesis by (simp add: strip_whitespaces_def)
qed

text \<open>
  Claim C8, as amended. \<open>strip_whitespaces\<close> replaces a run of two or more whitespace
  characters between two non-whitespace characters by one space, leaves a single
  whitespace character between two non-whitespace characters as it is (a lone newline or
  tab is not turned into a space), and removes the whitespace at both ends: the result
  neither starts nor ends with a whitespace character.
\<close>

theorem strip_whitespaces_runs:
  assumes "w \<noteq> []" and "\<forall>c\<in>set w. isspace c"
    and "u \<noteq> []" and "\<not> isspace (last u)" and "v \<noteq> []" and "\<not> isspace (hd v)"
  shows "strip_whitespaces (u @ w @ v) =
           strip_whitespaces u @ (if 2 \<le> length w then [32] else w) @ strip_whitespaces v
         \<and> strip_whitespaces (w @ v) = strip_whitespaces v
         \<and> strip_whitespaces (u @ w) = strip_whitespaces u
         \<and> (strip_whitespaces s = [] \<or>
              \<not> isspace (hd (strip_whitespaces s)) \<and> \<not> isspace (last (strip_whitespaces s)))"
proof -
  let ?sep = "if 2 \<le> length w then [32] else w"
  have sep: "\<forall>c\<in>set ?sep. isspace c" using assms(2) by (simp add: isspace_32)
  have wv: "sub_spaces (w @ v) = ?sep @ sub_spaces v"
    using assms(1,2,6) by (intro sub_spaces_run) auto
  have w0: "sub_spaces w = ?sep"
    using sub_spaces_run [of w "[]"] assms(1,2) by simp
  have une: "sub_spaces u \<noteq> []" using assms(3) by (simp add: sub_spaces_Nil_iff)
  have ul: "\<not> isspace (last (sub_spaces u))" using assms(3,4) by (simp add: sub_spaces_last)
  have vne: "sub_spaces v \<noteq> []" using assms(5) by (simp add: sub_spaces_Nil_iff)
  have vh: "\<not> isspace (hd (sub_spaces v))" using assms(5,6) by (simp add: sub_spaces_hd)
  have "sub_spaces (u @ w @ v) = sub_spaces u @ ?sep @ sub_spaces v"
    using assms(4) wv by (simp add: sub_spaces_append)
  then have 1: "strip_whitespaces (u @ w @ v) = strip_whitespaces u @ ?sep @ strip_whitespaces v"
    unfolding strip_whitespaces_def using strip_append3 [OF une ul vne vh] by simp
  have 2: "strip_whitespaces (w @ v) = strip_whitespaces v"
    unfolding strip_whitespaces_def wv using sep by (rule strip_ws_prefix)
  have "sub_spaces (u @ w) = sub_spaces u @ ?sep"
    using assms(4) w0 by (simp add: sub_spaces_append)
  then have 3: "strip_whitespaces (u @ w) = strip_whitespaces u"
    unfolding strip_whitespaces_def using strip_ws_suffix [OF sep] by simp
  from 1 2 3 strip_ends [of "sub_spaces s"] show ?thesis
    unfolding strip_whitespaces_def by blast
qed

theorem strip_whitespaces_runs_witness:
  "strip_whitespaces (str ''a'' @ [9, 10] @ str ''b'') = str ''a b''
   \<and> strip_whitespaces (str ''a'' @ [10] @ str ''b'') = str ''a'' @ [10] @ str ''b''"
  using strip_whitespaces_runs [of "[9, 10]" "str ''a''" "str ''b''" "[]"]
    strip_whitespaces_runs [of "[10]" "str ''a''" "str ''b''" "[]"]
  by (simp add: str_def isspace_def strip_whitespaces_nonspace)

text \<open>
  Claim C8 as written fails: between \<open>a\<close> and \<open>b\<close> a single line feed is a run of
  whitespace, and it is kept, where collapsing every run gives \<open>a b\<close>.
\<close>

theorem strip_whitespaces_single_newline_counterexample:
  "strip_whitespaces (str ''a'' @ [10] @ str ''b'') \<noteq> normalize_spec (str ''a'' @ [10] @ str ''b'')"
  by (simp add: str_def strip_whitespaces_def normalize_spec_def strip_def isspace_def)

text \<open>
  Claim C9. Normalizing a normalized text changes nothing:
  \<open>strip_whitespaces (strip_whitespaces s) = strip_whitespaces s\<close> for every string.
\<close>

theorem strip_whitespaces_idempotent:
  "strip_whitespaces (strip_whitespaces s) = strip_whitespaces s"
  by (simp add: strip_whitespaces_def sub_spaces_id no_ws_pair_strip no_ws_pair_sub_spaces
      strip_strip)

section \<open>Properties of the extractors\<close>

subsection \<open>Free text\<close>

lemma br_tails_Nil: "br_tails [] = []"
  by (simp add: br_tails_def)

lemma br_tails_Cons:
  "br_tails (c # cs) = (if tag c = str ''br'' then opt_list (tail c) else []) @ br_tails cs"
  by (simp add: br_tails_def)

lemma discussion_loop_eq: "discussion_loop cs acc = acc @ concat (br_tails cs)"
  by (induction cs arbitrary: acc)
    (auto simp: br_tails_Nil br_tails_Cons opt_list_def split: option.splits)

lemma exploit_loop_eq:
  "exploit_loop cs acc =
     (if \<exists>x \<in> set (br_tails cs). contains x no_exploit_phrase then None
      else Some (acc @ concat (br_tails cs)))"
  by (induction cs arbitrary: acc)
    (auto simp: br_tails_Nil br_tails_Cons opt_list_def split: option.splits)

lemma solution_loop_eq:
  "solution_loop cs acc =
     (if \<exists>x \<in> set (br_tails cs). contains x no_solution_phrase then None
      else Some (acc @ concat (br_tails cs)))"
  by (induction cs arbitrary: acc)
    (auto simp: br_tails_Nil br_tails_Cons opt_list_def split: option.splits)

text \<open>
  Claim C3, as amended. On a document that has the vulnerability section (a \<open>div\<close> with id
  \<open>vulnerability\<close>), \<open>get_exploit_description\<close> returns \<open>None\<close> exactly when a break-tail
  text fragment of the section contains
  \<open>Currently, we are not aware of any working exploits.\<close>, and \<open>get_solution\<close> exactly when
  one contains \<open>Currently we are not aware of any\<close>; otherwise each returns the normalized
  concatenation of the fragments. On such a document \<open>get_discussion\<close> returns the
  normalized concatenation of the fragments, which may be empty. On a document without
  the section all three raise \<open>IndexError\<close>. On no document does \<open>get_discussion\<close> return
  \<open>None\<close>, and the other two return \<open>None\<close> only for the phrase.
\<close>

theorem free_text_sentinel:
  "(get_exploit_description t = Inr None \<longleftrightarrow>
      xpath_vulnerability_div t \<noteq> [] \<and>
      (\<exists>x \<in> set (break_tails t). contains x no_exploit_phrase))
   \<and> (xpath_vulnerability_div t \<noteq> [] \<and>
        \<not> (\<exists>x \<in> set (break_tails t). contains x no_exploit_phrase) \<longrightarrow>
        get_exploit_description t = Inr (Some (strip_whitespaces (concat (break_tails t)))))
   \<and> (get_solution t = Inr None \<longleftrightarrow>
      xpath_vulnerability_div t \<noteq> [] \<and>
      (\<exists>x \<in> set (break_tails t). contains x no_solution_phrase))
   \<and> (xpath_vulnerability_div t \<noteq> [] \<and>
        \<not> (\<exists>x \<in> set (break_tails t). contains x no_solution_phrase) \<longrightarrow>
        get_solution t = Inr (Some (strip_whitespaces (concat (break_tails t)))))
   \<and> get_discussion t \<noteq> Inr None
   \<and> (xpath_vulnerability_div t \<noteq> [] \<longrightarrow>
        get_discussion t = Inr (Some (strip_whitespaces (concat (break_tails t)))))
   \<and> (xpath_vulnerability_div t = [] \<longrightarrow>
        get_exploit_description t = Inl IndexError \<and> get_solution t = Inl IndexError \<and>
        get_discussion t = Inl IndexError)"
  by (cases "xpath_vulnerability_div t")
    (simp_all add: get_exploit_description_def get_solution_def get_discussion_def
      break_tails_def exploit_loop_eq solution_loop_eq discussion_loop_eq)

text \<open>
  The theorem at five documents: the boilerplate phrase alone, two paragraphs separated
  by an element that is not a \<open>br\<close>, the two solution texts, and a page with no
  vulnerability section.
\<close>

lemma xpath_no_section:
  "xpath_vulnerability_div (el ''html'' [el ''body'' [br ''A paragraph.'']]) = []"
  by (simp add: xpath_vulnerability_div_def el_def br_def is_vulnerability_div_def str_def)

lemma xpath_tab_page: "xpath_vulnerability_div (tab_page cs) =
   Element (str ''div'') [(str ''id'', str ''vulnerability'')] None cs None #
   filter is_vulnerability_div (concat (map iter cs))"
  by (simp add: xpath_vulnerability_div_def tab_page_def el_def is_vulnerability_div_def str_def)

theorem free_text_sentinel_witness:
  "get_exploit_description
     (tab_page [br ''Currently, we are not aware of any working exploits.'']) = Inr None
   \<and> get_exploit_description (tab_page [br ''An  exploit '', el ''p'' [], br ''is public.''])
       = Inr (Some (str ''An exploit is public.''))
   \<and> get_solution (tab_page [br ''Currently we are not aware of any patches.'']) = Inr None
   \<and> get_solution (tab_page [br ''Updates are  available.''])
       = Inr (Some (str ''Updates are available.''))
   \<and> get_discussion (tab_page [br ''Currently we are not aware of any patches.''])
       = Inr (Some (str ''Currently we are not aware of any patches.''))
   \<and> get_exploit_description (el ''html'' [el ''body'' [br ''A paragraph.'']]) = Inl IndexError
   \<and> get_solution (el ''html'' [el ''body'' [br ''A paragraph.'']]) = Inl IndexError
   \<and> get_discussion (el ''html'' [el ''body'' [br ''A paragraph.'']]) = Inl IndexError"
proof -
  have present:
    "get_exploit_description
       (tab_page [br ''Currently, we are not aware of any working exploits.'']) = Inr None
     \<and> get_exploit_description (tab_page [br ''An  exploit '', el ''p'' [], br ''is public.''])
         = Inr (Some (str ''An exploit is public.''))
     \<and> get_solution (tab_page [br ''Currently we are not aware of any patches.'']) = Inr None
     \<and> get_solution (tab_page [br ''Updates are  available.''])
         = Inr (Some (str ''Updates are available.''))
     \<and> get_discussion (tab_page [br ''Currently we are not aware of any patches.''])
         = Inr (Some (str ''Currently we are not aware of any patches.''))"
    using free_text_sentinel [of "tab_page [br ''Currently, we are not aware of any working exploits.'']"]
      free_text_sentinel [of "tab_page [br ''An  exploit '', el ''p'' [], br ''is public.'']"]
      free_text_sentinel [of "tab_page [br ''Currently we are not aware of any patches.'']"]
      free_text_sentinel [of "tab_page [br ''Updates are  available.'']"]
    by (simp add: xpath_tab_page break_tails_def br_tails_def opt_list_def br_def el_def str_def
        no_exploit_phrase_def no_solution_phrase_def strip_whitespaces_def strip_def isspace_def)
  have absent:
    "get_exploit_description (el ''html'' [el ''body'' [br ''A paragraph.'']]) = Inl IndexError
     \<and> get_solution (el ''html'' [el ''body'' [br ''A paragraph.'']]) = Inl IndexError
     \<and> get_discussion (el ''html'' [el ''body'' [br ''A paragraph.'']]) = Inl IndexError"
    using free_text_sentinel [of "el ''html'' [el ''body'' [br ''A paragraph.'']]"]
      xpath_no_section
    by simp
  from present absent show ?thesis by simp
qed

text \<open>
  Claim C3 as written fails: a page with no vulnerability section is a document on which
  \<open>get_discussion\<close> does not return the normalized text of its break tails, nor any
  text; it raises \<open>IndexError\<close>, as \<open>get_exploit_description\<close> and \<open>get_solution\<close> do.
\<close>

theorem free_text_no_section_counterexample:
  "xpath_vulnerability_div (el ''html'' [el ''body'' [br ''A paragraph.'']]) = []
   \<and> get_discussion (el ''html'' [el ''body'' [br ''A paragraph.'']]) = Inl IndexError
   \<and> get_exploit_description (el ''html'' [el ''body'' [br ''A paragraph.'']]) = Inl IndexError
   \<and> get_solution (el ''html'' [el ''body'' [br ''A paragraph.'']]) = Inl IndexError"
  by (simp add: get_discussion_def get_exploit_description_def get_solution_def xpath_no_section)

subsection \<open>Label lookup\<close>

lemma value_texts_no_row:
  "\<not> sel \<Longrightarrow> \<forall>g \<in> set (iter e). \<not> is_label_row element_name g \<Longrightarrow>
     value_texts element_name sel e = []"
  "\<not> sel \<Longrightarrow> \<not> row \<Longrightarrow> \<forall>c \<in> set cs. \<forall>g \<in> set (iter c). \<not> is_label_row element_name g \<Longrightarrow>
     value_texts_children element_name row n sel cs = []"
  by (induction element_name sel e and element_name row n sel cs
      rule: value_texts_value_texts_children.induct) (auto simp: Let_def)

lemma xpath_value_texts_no_row:
  "\<not> has_label_row t element_name \<Longrightarrow> xpath_value_texts t element_name = []"
  by (simp add: has_label_row_def xpath_value_texts_def value_texts_no_row(1))

text \<open>
  Claim C1, as amended. For every document and label, the label lookup \<open>_parse_element\<close>
  raises \<open>IndexError\<close> when the query selects no text node, which is so in particular when the
  document has no row for the label; it returns \<open>None\<close> when the first selected text node is
  empty after whitespace trimming, and that text trimmed otherwise. The getters of the
  five optional fields are this lookup at their labels.
\<close>

theorem parse_element_cases:
  "(\<not> has_label_row t element_name \<longrightarrow> parse_element t element_name = Inl IndexError)
   \<and> (xpath_value_texts t element_name = [] \<longrightarrow> parse_element t element_name = Inl IndexError)
   \<and> (xpath_value_texts t element_name = v # vs \<and> strip v = [] \<longrightarrow>
        parse_element t element_name = Inr None)
   \<and> (xpath_value_texts t element_name = v # vs \<and> strip v \<noteq> [] \<longrightarrow>
        parse_element t element_name = Inr (Some (strip v)))
   \<and> get_bugtraq_id t = parse_element t (str ''Bugtraq ID:'')
   \<and> get_vuln_class t = parse_element t (str ''Class:'')
   \<and> is_vuln_remote t = parse_element t (str ''Remote:'')
   \<and> is_vuln_local t = parse_element t (str ''Local:'')
   \<and> get_credit t = parse_element t (str ''Credit:'')"
  by (auto simp: parse_element_def xpath_value_texts_no_row get_bugtraq_id_def
      get_vuln_class_def is_vuln_remote_def is_vuln_local_def get_credit_def)

text \<open>
  The theorem at four documents: no row for the label, a row whose value cell has no
  text, a cell of whitespace, and a cell with a value.
\<close>

lemma xpath_info_row:
  "xpath_value_texts (info_page [info_row ''Class:'' v]) (str ''Class:'') = opt_list v"
  by (simp add: xpath_value_texts_def info_page_def info_row_def el_def is_label_row_def
      is_label_span_def text_nodes_def opt_list_def str_def)

lemma no_row_info_page:
  "\<not> has_label_row (info_page [info_row ''Class:'' v]) (str ''Bugtraq ID:'')"
  by (simp add: has_label_row_def info_page_def info_row_def el_def is_label_row_def
      is_label_span_def text_nodes_def opt_list_def str_def)

lemma strip_examples:
  "strip [32, 10, 9] = []"
  "strip (str '' Input Validation Error '') = str ''Input Validation Error''"
  by (simp_all add: strip_def isspace_def str_def)

theorem parse_element_cases_witness:
  "get_bugtraq_id (info_page [info_row ''Class:'' (Some (str ''Input Validation Error''))])
     = Inl IndexError
   \<and> get_vuln_class (info_page [info_row ''Class:'' None]) = Inl IndexError
   \<and> get_vuln_class (info_page [info_row ''Class:'' (Some [32, 10, 9])]) = Inr None
   \<and> get_vuln_class (info_page [info_row ''Class:'' (Some (str '' Input Validation Error ''))])
     = Inr (Some (str ''Input Validation Error''))"
proof -
  have ne: "str ''Input Validation Error'' \<noteq> []" by (simp add: str_def)
  have 1: "get_bugtraq_id (info_page [info_row ''Class:'' (Some (str ''Input Validation Error''))])
      = Inl IndexError"
    using parse_element_cases [of
        "info_page [info_row ''Class:'' (Some (str ''Input Validation Error''))]"
        "str ''Bugtraq ID:''"] no_row_info_page
    by simp
  have 2: "get_vuln_class (info_page [info_row ''Class:'' None]) = Inl IndexError"
    using parse_element_cases [of "info_page [info_row ''Class:'' None]" "str ''Class:''"]
    by (simp add: xpath_info_row opt_list_def)
  have 3: "get_vuln_class (info_page [info_row ''Class:'' (Some [32, 10, 9])]) = Inr None"
    using parse_element_cases [of "info_page [info_row ''Class:'' (Some [32, 10, 9])]"
        "str ''Class:''" "[32, 10, 9]" "[]"]
    by (simp add: xpath_info_row opt_list_def strip_examples)
  have 4: "get_vuln_class
      (info_page [info_row ''Class:'' (Some (str '' Input Validation Error ''))])
      = Inr (Some (str ''Input Validation Error''))"
    using parse_element_cases [of
        "info_page [info_row ''Class:'' (Some (str '' Input Validation Error ''))]"
        "str ''Class:''" "str '' Input Validation Error ''" "[]"] ne
    by (simp add: xpath_info_row opt_list_def strip_examples)
  from 1 2 3 4 show ?thesis by simp
qed

text \<open>
  Claim C1 as written fails: on a page that has a \<open>Class:\<close> row and no \<open>Bugtraq ID:\<close> row,
  \<open>get_bugtraq_id\<close> does not return \<open>None\<close>; it raises \<open>IndexError\<close>.
\<close>

theorem parse_element_missing_row_counterexample:
  "\<not> has_label_row (info_page [info_row ''Class:'' (Some (str ''Input Validation Error''))])
       (str ''Bugtraq ID:'')
   \<and> get_bugtraq_id (info_page [info_row ''Class:'' (Some (str ''Input Validation Error''))])
       \<noteq> Inr None
   \<and> get_bugtraq_id (info_page [info_row ''Class:'' (Some (str ''Input Validation Error''))])
       = Inl IndexError"
  by (simp add: no_row_info_page get_bugtraq_id_def parse_element_def xpath_value_texts_no_row)

subsection \<open>Date fields\<close>











































subsection \<open>References\<close>

text \<open>
  On list items whose first child has a text and a tail and that have a link, the loop
  of \<open>get_references\<close> gives one reference per item, in order, when no base URL is set.
\<close>

lemma references_loop_well_formed:
  "\<forall>li \<in> set items. well_formed_item urlparse_netloc li \<Longrightarrow>
     references_loop urlparse_netloc urljoin None items acc =
       Inr (acc @ map item_reference items)"
proof (induction items arbitrary: acc)
  case Nil
  show ?case by simp
next
  case (Cons li items)
  from Cons.prems have wf: "well_formed_item urlparse_netloc li"
    and rest: "\<forall>x \<in> set items. well_formed_item urlparse_netloc x" by simp_all
  from wf obtain a as tx tl h hs n where
    "children li = a # as" "etext a = Some tx" "tail a = Some tl"
    "xpath_a_href li = h # hs" "urlparse_netloc h = Inr n"
    by (cases "urlparse_netloc (hd (xpath_a_href li))")
      (auto simp: well_formed_item_def neq_Nil_conv)
  then show ?case
    using Cons.IH [OF rest] by (simp add: is_relative_url_def item_reference_def)
qed

text \<open>
  Claim C5 at the failing input: a list item whose anchor has no trailing text. The tail
  of the anchor is \<open>None\<close>, and \<open>get_references\<close> raises \<open>TypeError\<close> instead of returning
  the reference with the anchor's own text as description.
\<close>

theorem get_references_no_trailing_text:
  "get_references urlparse_netloc urljoin self_url
     (references_page [el ''li'' [anchor ''http://example.com/'' ''Home'' None]]) = Inl TypeError"
  by (simp add: get_references_def get_reference_parent_tag_def references_page_def
      tab_page_def el_def anchor_def is_vulnerability_div_def str_def)

section \<open>Properties of the storage\<close>

subsection \<open>The operations in terms of the directory preparation\<close>



lemma created_append:
  "created (st\<lparr>makedirs_calls := makedirs_calls st @ [(r, p, ok)]\<rparr>) r' =
     created st r' + (if r = r' \<and> ok then 1 else 0)"
  by (simp add: created_def)

lemma created_update [simp]:
  "created (st\<lparr>fs := f\<rparr>) r = created st r"
  "created (st\<lparr>known := k\<rparr>) r = created st r"
  by (simp_all add: created_def)


lemma prepare_path_snd:
  "snd (prepare_path env r st) =
     (if r \<in> known st then st
      else if fst (os_makedirs env (path st [r]) (fs st)) = None
      then st\<lparr>fs := snd (os_makedirs env (path st [r]) (fs st)),
             makedirs_calls := makedirs_calls st @ [(r, path st [r], True)],
             known := insert r (known st)\<rparr>
      else st\<lparr>fs := snd (os_makedirs env (path st [r]) (fs st)),
             makedirs_calls := makedirs_calls st @ [(r, path st [r], False)]\<rparr>)"
  by (cases "os_makedirs env (path st [r]) (fs st)")
    (auto simp: prepare_path_def split: option.splits)







lemma path_fs [simp]: "path (st\<lparr>fs := f\<rparr>) args = path st args"
  by (simp add: path_def)

lemma prepare_path_base: "base_path (snd (prepare_path env r st)) = base_path st"
  by (simp add: prepare_path_snd)

lemma prepare_path_path: "path (snd (prepare_path env r st)) args = path st args"
  by (simp add: path_def prepare_path_base)

lemma prepare_path_serialize:
  "prepare_path (env\<lparr>serialize := s\<rparr>) r st = prepare_path env r st"
  by (simp add: prepare_path_def)

lemma prepare_path_fst:
  "fst (prepare_path env r st) =
     (if r \<in> known st then None else fst (os_makedirs env (path st [r]) (fs st)))"
  by (cases "os_makedirs env (path st [r]) (fs st)")
    (auto simp: prepare_path_def split: option.splits)

lemma storage_write_eq:
  "storage_write env sch item args st =
     (if fst (prepare_path env (key item) st) = None
      then (fst (os_write env (path st (key item # args)) (fst (serialize env sch item))
                  (fs (snd (prepare_path env (key item) st)))),
            (snd (prepare_path env (key item) st))
              \<lparr>fs := snd (os_write env (path st (key item # args)) (fst (serialize env sch item))
                  (fs (snd (prepare_path env (key item) st))))\<rparr>)
      else prepare_path env (key item) st)"
proof (cases "prepare_path env (key item) st")
  case (Pair r b)
  then have "b = snd (prepare_path env (key item) st)" by simp
  then have pb: "path b xs = path st xs" for xs by (simp add: prepare_path_path)
  show ?thesis
    using Pair pb by (auto simp: storage_write_def split: prod.splits option.splits)
qed











subsection \<open>Lazy directory creation\<close>






subsection \<open>Writes\<close>

text \<open>
  Claim C10. \<open>_write\<close> discards the errors of the serializer: replacing them by any other
  errors changes neither the result nor the state. A write that raises raises the error
  of \<open>makedirs\<close> or of opening and writing the file; when the directory is prepared, the
  text the serializer produced is written to \<open>key/filename\<close> and the result is that of the
  write. \<open>write_meta\<close>, \<open>write_vulnerabilities\<close> and \<open>write_versions\<close> are \<open>_write\<close> with
  their schema and file name.
\<close>

theorem write_discards_errors:
  "storage_write (env\<lparr>serialize := \<lambda>s i. (fst (serialize env s i), errs s i)\<rparr>) sch item args st
     = storage_write env sch item args st
   \<and> (fst (storage_write env sch item args st) = Some e \<longrightarrow>
        (key item \<notin> known st \<and>
         fst (os_makedirs env (path st [key item]) (fs st)) = Some e) \<or>
        fst (os_write env (path st (key item # args)) (fst (serialize env sch item))
              (fs (snd (prepare_path env (key item) st)))) = Some e)
   \<and> (fst (prepare_path env (key item) st) = None \<longrightarrow>
        fs (snd (storage_write env sch item args st)) =
          snd (os_write env (path st (key item # args)) (fst (serialize env sch item))
                (fs (snd (prepare_path env (key item) st)))) \<and>
        fst (storage_write env sch item args st) =
          fst (os_write env (path st (key item # args)) (fst (serialize env sch item))
                (fs (snd (prepare_path env (key item) st)))))
   \<and> write_meta env item = storage_write env MetaSchema item [str ''META.json'']
   \<and> write_vulnerabilities env item =
        storage_write env VulnerabilityListSchema item
          [str ''vuln-'' @ str_lower env (producer item) @ str ''.json'']
   \<and> write_versions env item = storage_write env VersionListSchema item [str ''versions.json'']"
proof -
  have 1: "storage_write (env\<lparr>serialize := \<lambda>s i. (fst (serialize env s i), errs s i)\<rparr>)
      sch item args st = storage_write env sch item args st"
    by (simp add: storage_write_eq prepare_path_serialize)
  have 2: "fst (storage_write env sch item args st) = Some e \<longrightarrow>
        (key item \<notin> known st \<and>
         fst (os_makedirs env (path st [key item]) (fs st)) = Some e) \<or>
        fst (os_write env (path st (key item # args)) (fst (serialize env sch item))
              (fs (snd (prepare_path env (key item) st)))) = Some e"
    by (auto simp: storage_write_eq prepare_path_fst split: if_splits)
  have 3: "fst (prepare_path env (key item) st) = None \<longrightarrow>
        fs (snd (storage_write env sch item args st)) =
          snd (os_write env (path st (key item # args)) (fst (serialize env sch item))
                (fs (snd (prepare_path env (key item) st)))) \<and>
        fst (storage_write env sch item args st) =
          fst (os_write env (path st (key item # args)) (fst (serialize env sch item))
                (fs (snd (prepare_path env (key item) st))))"
    by (simp add: storage_write_eq)
  from 1 2 3 show ?thesis
    by (simp add: write_meta_def write_vulnerabilities_def write_versions_def)
qed

text \<open>
  The theorem at a serializer that reports an error for the entity: the file is written
  all the same.
\<close>

lemma mem_env_errors:
  "(mem_env [])\<lparr>serialize := \<lambda>s i. (fst (serialize (mem_env []) s i), errs)\<rparr> = mem_env errs"
  by (simp add: mem_env_def)

lemma write_meta_example:
  "storage_write (mem_env []) MetaSchema \<lparr>key = str ''k'', producer = [], body = str ''{}''\<rparr>
     [str ''META.json''] (new_storage (str ''/base'') empty_fs) =
   (None, \<lparr>base_path = str ''/base'', known = {str ''k''},
      fs = \<lparr>mem_files = [(str ''/base/k/META.json'', str ''{}'')], mem_dirs = []\<rparr>,
      makedirs_calls = [(str ''k'', str ''/base/k'', True)], log = []\<rparr>)"
  by (simp add: storage_write_def prepare_path_def path_def join_def join2_def
      mem_env_def new_storage_def empty_fs_def str_def)

theorem write_discards_errors_witness:
  "write_meta (mem_env [(str ''key'', str ''Missing data for required field.'')])
     \<lparr>key = str ''k'', producer = [], body = str ''{}''\<rparr> (new_storage (str ''/base'') empty_fs) =
   (None, \<lparr>base_path = str ''/base'', known = {str ''k''},
      fs = \<lparr>mem_files = [(str ''/base/k/META.json'', str ''{}'')], mem_dirs = []\<rparr>,
      makedirs_calls = [(str ''k'', str ''/base/k'', True)], log = []\<rparr>)"
proof -
  let ?errs = "[(str ''key'', str ''Missing data for required field.'')]"
  let ?item = "\<lparr>key = str ''k'', producer = [], body = str ''{}''\<rparr>"
  have "storage_write (mem_env ?errs) MetaSchema ?item [str ''META.json'']
      (new_storage (str ''/base'') empty_fs) =
    storage_write (mem_env []) MetaSchema ?item [str ''META.json'']
      (new_storage (str ''/base'') empty_fs)"
    using write_discards_errors [of "mem_env []" "\<lambda>s i. ?errs" MetaSchema ?item
        "[str ''META.json'']" "new_storage (str ''/base'') empty_fs"]
    by (simp only: mem_env_errors)
  then show ?thesis
    by (simp only: write_meta_def write_meta_example)
qed

subsection \<open>Reads\<close>

text \<open>
  Claim C2. For a file that can be read: when \<open>loads\<close> raises \<open>JSONDecodeError\<close>, \<open>_read\<close>
  logs a critical message and returns nothing, without raising; when \<open>loads\<close> decodes the
  text and reports errors that are not empty, \<open>_read\<close> raises \<open>Exception(*args, errors)\<close> and
  logs nothing. \<open>read_meta\<close>, \<open>read_vulnerabilities\<close> and \<open>read_versions\<close> are \<open>_read\<close> with
  their schema and file name.
\<close>

theorem read_failure_policy:
  "(os_read env (path st args) (fs st) = Inr text \<and> loads env sch text = Inl JSONDecodeError \<longrightarrow>
      storage_read env sch args st =
        (Inr None, st\<lparr>log := log st @ [Critical (str ''JSON Decode error in %s'') args]\<rparr>))
   \<and> (os_read env (path st args) (fs st) = Inr text \<and> loads env sch text = Inr (data, errs) \<and>
       errs \<noteq> [] \<longrightarrow>
      storage_read env sch args st = (Inl (Exception args errs), st))
   \<and> read_meta env k = storage_read env MetaSchema [k, str ''META.json'']
   \<and> read_vulnerabilities env k p =
       storage_read env VulnerabilityListSchema [k, str ''vuln-'' @ str_lower env p @ str ''.json'']
   \<and> read_versions env k = storage_read env VersionListSchema [k, str ''versions.json'']"
  by (simp add: storage_read_def read_meta_def read_vulnerabilities_def read_versions_def)

text \<open>
  The theorem at a META.json that does not decode and a versions.json with schema errors.
\<close>

lemma example_reads:
  "os_read (mem_env []) (path (new_storage (str ''/base'') example_fs) [str ''k'', str ''META.json''])
     (fs (new_storage (str ''/base'') example_fs)) = Inr (str ''{'')"
  "os_read (mem_env []) (path (new_storage (str ''/base'') example_fs) [str ''k'', str ''versions.json''])
     (fs (new_storage (str ''/base'') example_fs)) = Inr (str ''{}'')"
  "loads (mem_env []) sch (str ''{'') = Inl JSONDecodeError"
  "loads (mem_env []) sch (str ''{}'') =
     Inr (\<lparr>key = [], producer = [], body = str ''{}''\<rparr>,
          [(str ''key'', str ''Missing data for required field.'')])"
  by (simp_all add: mem_env_def new_storage_def example_fs_def path_def join_def join2_def str_def)

theorem read_failure_policy_witness:
  "read_meta (mem_env []) (str ''k'') (new_storage (str ''/base'') example_fs) =
     (Inr None, (new_storage (str ''/base'') example_fs)
        \<lparr>log := [Critical (str ''JSON Decode error in %s'') [str ''k'', str ''META.json'']]\<rparr>)
   \<and> read_versions (mem_env []) (str ''k'') (new_storage (str ''/base'') example_fs) =
     (Inl (Exception [str ''k'', str ''versions.json'']
        [(str ''key'', str ''Missing data for required field.'')]),
      new_storage (str ''/base'') example_fs)"
proof -
  let ?st = "new_storage (str ''/base'') example_fs"
  have 1: "read_meta (mem_env []) (str ''k'') ?st =
     (Inr None, ?st\<lparr>log := log ?st @
        [Critical (str ''JSON Decode error in %s'') [str ''k'', str ''META.json'']]\<rparr>)"
    using read_failure_policy [of "mem_env []" ?st "[str ''k'', str ''META.json'']" "str ''{''"
        MetaSchema _ _ "str ''k''"] example_reads(1,3)
    by simp
  have 2: "read_versions (mem_env []) (str ''k'') ?st =
     (Inl (Exception [str ''k'', str ''versions.json'']
        [(str ''key'', str ''Missing data for required field.'')]), ?st)"
    using read_failure_policy [of "mem_env []" ?st "[str ''k'', str ''versions.json'']" "str ''{}''"
        VersionListSchema "\<lparr>key = [], producer = [], body = str ''{}''\<rparr>"
        "[(str ''key'', str ''Missing data for required field.'')]" "str ''k''"] example_reads(2,4)
    by simp
  have "log ?st = []" by (simp add: new_storage_def)
  with 1 2 show ?thesis by simp
qed

subsection \<open>Listing\<close>

text \<open>
  A read changes the log only, so what a read gives is the same at every point of the
  iteration, and the loop is a map over the entries kept, cut at the first read that
  raises.
\<close>

lemma storage_read_snd:
  "fs (snd (storage_read env sch args st)) = fs st \<and>
   base_path (snd (storage_read env sch args st)) = base_path st"
  by (auto simp: storage_read_def split: sum.splits prod.splits)

lemma storage_read_fst:
  "fs st' = fs st \<Longrightarrow> base_path st' = base_path st \<Longrightarrow>
     fst (storage_read env sch args st') = fst (storage_read env sch args st)"
  by (auto simp: storage_read_def path_def split: sum.splits prod.splits)

lemma read_entry_cong:
  "fs st' = fs st \<Longrightarrow> base_path st' = base_path st \<Longrightarrow>
     read_entry env k st' e = read_entry env k st e"
  unfolding read_entry_def read_vulnerabilities_def by (rule storage_read_fst)

lemma list_loop_eq:
  "fs st = fs st0 \<Longrightarrow> base_path st = base_path st0 \<Longrightarrow>
   fst (list_loop env k entries st) =
     (map (\<lambda>e. projr (read_entry env k st0 e))
        (takeWhile (\<lambda>e. \<not> isl (read_entry env k st0 e)) (matching env entries)),
      case dropWhile (\<lambda>e. \<not> isl (read_entry env k st0 e)) (matching env entries) of
        [] \<Rightarrow> None
      | e # _ \<Rightarrow> Some (projl (read_entry env k st0 e)))"
proof (induction entries arbitrary: st)
  case Nil
  show ?case by (simp add: matching_def)
next
  case (Cons entry rest)
  show ?case
  proof (cases "name_format_match (isalnum env) (name entry) \<noteq> None \<and> \<not> is_dir entry")
    case False
    then have "matching env (entry # rest) = matching env rest" by (simp add: matching_def)
    moreover from False have "list_loop env k (entry # rest) st = list_loop env k rest st"
      by (auto split: option.splits)
    ultimately show ?thesis using Cons by simp
  next
    case True
    then obtain g where g: "name_format_match (isalnum env) (name entry) = Some g" by auto
    from True have m: "matching env (entry # rest) = entry # matching env rest"
      by (simp add: matching_def)
    obtain r st' where rd: "read_vulnerabilities env k g st = (r, st')" by (cases "read_vulnerabilities env k g st")
    then have "st' = snd (storage_read env VulnerabilityListSchema
        [k, str ''vuln-'' @ str_lower env g @ str ''.json''] st)"
      by (simp add: read_vulnerabilities_def)
    then have same: "fs st' = fs st0" "base_path st' = base_path st0"
      using Cons.prems by (simp_all add: storage_read_snd)
    have re: "read_entry env k st0 entry = r"
      using rd g Cons.prems read_entry_cong [of st st0 env k entry, symmetric]
      by (simp add: read_entry_def)
    show ?thesis
    proof (cases r)
      case (Inl e)
      with rd g True m re show ?thesis by simp
    next
      case (Inr v)
      from Cons.IH [OF same] obtain vs x st'' where
        ll: "list_loop env k rest st' = ((vs, x), st'')"
        and vs: "vs = map (\<lambda>e. projr (read_entry env k st0 e))
          (takeWhile (\<lambda>e. \<not> isl (read_entry env k st0 e)) (matching env rest))"
        and x: "x = (case dropWhile (\<lambda>e. \<not> isl (read_entry env k st0 e)) (matching env rest) of
          [] \<Rightarrow> None | e # _ \<Rightarrow> Some (projl (read_entry env k st0 e)))"
        by (cases "list_loop env k rest st'") auto
      with rd g True m re Inr show ?thesis by simp
    qed
  qed
qed

lemma find_SomeD: "find P xs = Some x \<Longrightarrow> x \<in> set xs \<and> P x"
  by (induction xs) (auto split: if_splits)

lemma take_takeWhile_le:
  assumes "k \<le> length (takeWhile P xs)"
  shows "take k xs = take k (takeWhile P xs)"
proof -
  from assms have "take k (takeWhile P xs @ dropWhile P xs) = take k (takeWhile P xs)"
    by (simp only: take_append) simp
  then show ?thesis by simp
qed

lemma name_format_match_SomeD:
  assumes "name_format_match alnum nm = Some w"
  shows "w \<noteq> [] \<and> (\<forall>c \<in> set w. is_word alnum c) \<and>
    (nm = str ''vuln-'' @ w @ str ''.json'' \<or> nm = str ''vuln-'' @ w @ str ''.json'' @ [10])"
proof -
  let ?rest = "drop 5 nm"
  let ?run = "takeWhile (is_word alnum) ?rest"
  from assms have pre: "take 5 nm = str ''vuln-''"
    by (simp add: name_format_match_def split: if_splits)
  from assms pre obtain k where
    f: "find (\<lambda>k. drop k ?rest = str ''.json'' \<or> drop k ?rest = str ''.json'' @ [10])
          (rev [1 ..< Suc (length ?run)]) = Some k"
    and w: "w = take k ?rest"
    by (auto simp: name_format_match_def Let_def)
  from find_SomeD [OF f] have k: "1 \<le> k" "k \<le> length ?run"
    and d: "drop k ?rest = str ''.json'' \<or> drop k ?rest = str ''.json'' @ [10]"
    by auto
  have tk: "w = take k ?run" using w take_takeWhile_le [OF k(2)] by simp
  then have "set w \<subseteq> set ?run" by (simp add: set_take_subset)
  then have all: "\<forall>c \<in> set w. is_word alnum c" by (auto dest: set_takeWhileD)
  from tk k have ne: "w \<noteq> []" by (cases ?run) auto
  have "nm = take 5 nm @ ?rest" by simp
  moreover have "?rest = take k ?rest @ drop k ?rest" by (simp only: append_take_drop_id)
  ultimately have "nm = str ''vuln-'' @ w @ drop k ?rest" using pre w by metis
  with d ne all show ?thesis by auto
qed

lemma name_format_match_word:
  assumes "w \<noteq> []" "\<forall>c \<in> set w. is_word alnum c" "\<not> is_word alnum 46"
  shows "name_format_match alnum (str ''vuln-'' @ w @ str ''.json'') = Some w"
proof -
  have l5: "length (str ''vuln-'') = 5" by (simp add: str_def)
  have j: "str ''.json'' = 46 # str ''json''" by (simp add: str_def)
  have run: "takeWhile (is_word alnum) (w @ str ''.json'') = w"
    using assms(2,3) by (simp add: takeWhile_append2 j)
  from assms(1) have "Suc (length w) = Suc (Suc (length w - 1))" by (cases w) auto
  then have up: "rev [1 ..< Suc (length w)] = length w # rev [1 ..< length w]"
    using assms(1) by (cases w) auto
  have pre: "take 5 (str ''vuln-'' @ w @ str ''.json'') = str ''vuln-''"
    and rest: "drop 5 (str ''vuln-'' @ w @ str ''.json'') = w @ str ''.json''"
    using l5 by simp_all
  have f: "find (\<lambda>k. drop k (w @ str ''.json'') = str ''.json'' \<or>
        drop k (w @ str ''.json'') = str ''.json'' @ [10])
      (rev [1 ..< Suc (length w)]) = Some (length w)"
    unfolding up by simp
  show ?thesis
    unfolding name_format_match_def Let_def pre rest run f by simp
qed

lemma name_format_match_vulnerabilities:
  "name_format_match alnum (str ''vulnerabilities.json'') = None"
  by (simp add: name_format_match_def str_def)

lemma list_vulnerabilities_eq:
  assumes "os_scandir env (path st [k]) (fs st) = Inr entries"
  shows "fst (list_vulnerabilities env k st) =
     (map (\<lambda>e. projr (read_entry env k st e))
        (takeWhile (\<lambda>e. \<not> isl (read_entry env k st e)) (matching env entries)),
      case dropWhile (\<lambda>e. \<not> isl (read_entry env k st e)) (matching env entries) of
        [] \<Rightarrow> None
      | e # _ \<Rightarrow> Some (projl (read_entry env k st e)))"
  using assms list_loop_eq [of st st env k entries] by (simp add: list_vulnerabilities_def)

lemma list_vulnerabilities_scandir_error:
  "os_scandir env (path st [k]) (fs st) = Inl x \<Longrightarrow>
     fst (list_vulnerabilities env k st) = ([], Some x)"
  by (simp add: list_vulnerabilities_def)

lemma list_vulnerabilities_all:
  assumes "os_scandir env (path st [k]) (fs st) = Inr entries"
    and "\<forall>e \<in> set (matching env entries). \<not> isl (read_entry env k st e)"
  shows "fst (list_vulnerabilities env k st) =
     (map (\<lambda>e. projr (read_entry env k st e)) (matching env entries), None)"
proof -
  from assms(2) have
    "takeWhile (\<lambda>e. \<not> isl (read_entry env k st e)) (matching env entries) = matching env entries"
    and "dropWhile (\<lambda>e. \<not> isl (read_entry env k st e)) (matching env entries) = []"
    by simp_all
  then show ?thesis
    by (simp only: list_vulnerabilities_eq [OF assms(1)] list.case)
qed

lemma read_entry_eq:
  "name_format_match (isalnum env) (name e) = Some w \<Longrightarrow>
     read_entry env k st e =
       fst (storage_read env VulnerabilityListSchema
         [k, str ''vuln-'' @ str_lower env w @ str ''.json''] st)"
  by (simp add: read_entry_def read_vulnerabilities_def)

text \<open>
  Claim C6, as amended. \<open>list_vulnerabilities\<close> raises what \<open>scandir\<close> raises. Otherwise it
  goes through the entries of the directory in the order of the listing, keeps those that
  are no directory and whose name matches the pattern, and yields for each the result of
  \<open>read_vulnerabilities\<close> with the group of the pattern as the producer, that is of \<open>_read\<close>
  on the file \<open>vuln-<the group in small letters>.json\<close>, until a read raises: that exception
  ends the iteration. When no read raises there is one value for each entry kept, in
  order, and no exception. A name matches exactly when it is \<open>vuln-\<close>, a non-empty run of
  word characters and \<open>.json\<close>, with one line feed allowed at the end; the group is the run;
  \<open>vulnerabilities.json\<close> does not match.
\<close>

theorem list_vulnerabilities_entries:
  "(os_scandir env (path st [k]) (fs st) = Inl x \<longrightarrow>
      fst (list_vulnerabilities env k st) = ([], Some x))
   \<and> (os_scandir env (path st [k]) (fs st) = Inr entries \<longrightarrow>
      fst (list_vulnerabilities env k st) =
        (map (\<lambda>e. projr (read_entry env k st e))
           (takeWhile (\<lambda>e. \<not> isl (read_entry env k st e)) (matching env entries)),
         case dropWhile (\<lambda>e. \<not> isl (read_entry env k st e)) (matching env entries) of
           [] \<Rightarrow> None
         | e # _ \<Rightarrow> Some (projl (read_entry env k st e))) \<and>
      ((\<forall>e \<in> set (matching env entries). \<not> isl (read_entry env k st e)) \<longrightarrow>
         fst (list_vulnerabilities env k st) =
           (map (\<lambda>e. projr (read_entry env k st e)) (matching env entries), None)))
   \<and> (name_format_match (isalnum env) (name entry) = Some w \<longrightarrow>
        read_entry env k st entry =
          fst (storage_read env VulnerabilityListSchema
            [k, str ''vuln-'' @ str_lower env w @ str ''.json''] st))
   \<and> (name_format_match (isalnum env) nm = Some w \<longrightarrow>
        w \<noteq> [] \<and> (\<forall>c \<in> set w. is_word (isalnum env) c) \<and>
        (nm = str ''vuln-'' @ w @ str ''.json'' \<or> nm = str ''vuln-'' @ w @ str ''.json'' @ [10]))
   \<and> (g \<noteq> [] \<and> (\<forall>c \<in> set g. is_word (isalnum env) c) \<and> \<not> is_word (isalnum env) 46 \<longrightarrow>
        name_format_match (isalnum env) (str ''vuln-'' @ g @ str ''.json'') = Some g)
   \<and> name_format_match (isalnum env) (str ''vulnerabilities.json'') = None"
proof -
  have 1: "os_scandir env (path st [k]) (fs st) = Inl x \<longrightarrow>
      fst (list_vulnerabilities env k st) = ([], Some x)"
    by (blast intro: list_vulnerabilities_scandir_error)
  have 2: "os_scandir env (path st [k]) (fs st) = Inr entries \<longrightarrow>
      fst (list_vulnerabilities env k st) =
        (map (\<lambda>e. projr (read_entry env k st e))
           (takeWhile (\<lambda>e. \<not> isl (read_entry env k st e)) (matching env entries)),
         case dropWhile (\<lambda>e. \<not> isl (read_entry env k st e)) (matching env entries) of
           [] \<Rightarrow> None
         | e # _ \<Rightarrow> Some (projl (read_entry env k st e))) \<and>
      ((\<forall>e \<in> set (matching env entries). \<not> isl (read_entry env k st e)) \<longrightarrow>
         fst (list_vulnerabilities env k st) =
           (map (\<lambda>e. projr (read_entry env k st e)) (matching env entries), None))"
    using list_vulnerabilities_eq [of env st k entries]
      list_vulnerabilities_all [of env st k entries] by blast
  have 3: "name_format_match (isalnum env) (name entry) = Some w \<longrightarrow>
        read_entry env k st entry =
          fst (storage_read env VulnerabilityListSchema
            [k, str ''vuln-'' @ str_lower env w @ str ''.json''] st)"
    by (blast intro: read_entry_eq)
  have 4: "name_format_match (isalnum env) nm = Some w \<longrightarrow>
        w \<noteq> [] \<and> (\<forall>c \<in> set w. is_word (isalnum env) c) \<and>
        (nm = str ''vuln-'' @ w @ str ''.json'' \<or> nm = str ''vuln-'' @ w @ str ''.json'' @ [10])"
    using name_format_match_SomeD [of "isalnum env" nm w] by blast
  have 5: "g \<noteq> [] \<and> (\<forall>c \<in> set g. is_word (isalnum env) c) \<and> \<not> is_word (isalnum env) 46 \<longrightarrow>
        name_format_match (isalnum env) (str ''vuln-'' @ g @ str ''.json'') = Some g"
    using name_format_match_word [of g "isalnum env"] by blast
  from 1 2 3 4 5 name_format_match_vulnerabilities [of "isalnum env"]
  show ?thesis by blast
qed

text \<open>
  The theorem at the directory \<open>/base/k\<close> of the example file system, where both
  vulnerability lists decode, and at a key that has no directory.
\<close>

lemma example_names:
  "name_format_match ascii_alnum (str ''vuln-nvd.json'') = Some (str ''nvd'')"
  "name_format_match ascii_alnum (str ''vuln-abc.json'') = Some (str ''abc'')"
  "name_format_match ascii_alnum (str ''vuln-bad.json'') = Some (str ''bad'')"
  "name_format_match ascii_alnum (str ''vuln-old.json'') = Some (str ''old'')"
  "name_format_match ascii_alnum (str ''vuln-NVD.json'') = Some (str ''NVD'')"
  "name_format_match ascii_alnum (str ''META.json'') = None"
  "name_format_match ascii_alnum (str ''vulnerabilities.json'') = None"
  by (simp_all add: name_format_match_def str_def is_word_def ascii_alnum_def upt_rec)

lemma isalnum_mem_env: "isalnum (mem_env errs) = ascii_alnum"
  by (simp add: mem_env_def)

lemma example_listing:
  "os_scandir (mem_env []) (path (new_storage (str ''/base'') example_fs) [str ''k''])
     (fs (new_storage (str ''/base'') example_fs)) =
     Inr [\<lparr>name = str ''vuln-nvd.json'', is_dir = False\<rparr>,
          \<lparr>name = str ''vulnerabilities.json'', is_dir = False\<rparr>,
          \<lparr>name = str ''vuln-old.json'', is_dir = True\<rparr>,
          \<lparr>name = str ''META.json'', is_dir = False\<rparr>,
          \<lparr>name = str ''vuln-abc.json'', is_dir = False\<rparr>]"
  "os_scandir (mem_env []) (path (new_storage (str ''/base'') example_fs) [str ''missing''])
     (fs (new_storage (str ''/base'') example_fs)) = Inl FileNotFoundError"
  by (simp_all add: mem_env_def new_storage_def example_fs_def path_def join_def join2_def
      str_def)

lemma example_matching:
  "matching (mem_env [])
     [\<lparr>name = str ''vuln-nvd.json'', is_dir = False\<rparr>,
      \<lparr>name = str ''vulnerabilities.json'', is_dir = False\<rparr>,
      \<lparr>name = str ''vuln-old.json'', is_dir = True\<rparr>,
      \<lparr>name = str ''META.json'', is_dir = False\<rparr>,
      \<lparr>name = str ''vuln-abc.json'', is_dir = False\<rparr>] =
     [\<lparr>name = str ''vuln-nvd.json'', is_dir = False\<rparr>,
      \<lparr>name = str ''vuln-abc.json'', is_dir = False\<rparr>]"
  by (simp add: matching_def isalnum_mem_env example_names)

lemma example_read_entries:
  "read_entry (mem_env []) (str ''k'') (new_storage (str ''/base'') example_fs)
     \<lparr>name = str ''vuln-nvd.json'', is_dir = False\<rparr> =
     Inr (Some \<lparr>key = [], producer = [], body = str ''[1]''\<rparr>)"
  "read_entry (mem_env []) (str ''k'') (new_storage (str ''/base'') example_fs)
     \<lparr>name = str ''vuln-abc.json'', is_dir = False\<rparr> =
     Inr (Some \<lparr>key = [], producer = [], body = str ''[2]''\<rparr>)"
  by (simp_all add: read_entry_def isalnum_mem_env example_names read_vulnerabilities_def
      storage_read_def)
    (simp_all add: mem_env_def new_storage_def example_fs_def path_def join_def join2_def
      str_def ascii_lower_def)

theorem list_vulnerabilities_entries_witness:
  "fst (list_vulnerabilities (mem_env []) (str ''k'') (new_storage (str ''/base'') example_fs)) =
     ([Some \<lparr>key = [], producer = [], body = str ''[1]''\<rparr>,
       Some \<lparr>key = [], producer = [], body = str ''[2]''\<rparr>], None)
   \<and> fst (list_vulnerabilities (mem_env []) (str ''missing'')
       (new_storage (str ''/base'') example_fs)) = ([], Some FileNotFoundError)
   \<and> name_format_match ascii_alnum (str ''vuln-'' @ str ''nvd'' @ str ''.json'') =
       Some (str ''nvd'')"
proof -
  let ?st = "new_storage (str ''/base'') example_fs"
  let ?entries = "[\<lparr>name = str ''vuln-nvd.json'', is_dir = False\<rparr>,
          \<lparr>name = str ''vulnerabilities.json'', is_dir = False\<rparr>,
          \<lparr>name = str ''vuln-old.json'', is_dir = True\<rparr>,
          \<lparr>name = str ''META.json'', is_dir = False\<rparr>,
          \<lparr>name = str ''vuln-abc.json'', is_dir = False\<rparr>]"
  have 1: "fst (list_vulnerabilities (mem_env []) (str ''k'') ?st) =
     ([Some \<lparr>key = [], producer = [], body = str ''[1]''\<rparr>,
       Some \<lparr>key = [], producer = [], body = str ''[2]''\<rparr>], None)"
    using list_vulnerabilities_entries [where env = "mem_env []" and st = ?st
        and k = "str ''k''" and entries = ?entries]
    by (simp add: example_listing example_matching example_read_entries)
  have 2: "fst (list_vulnerabilities (mem_env []) (str ''missing'') ?st) =
      ([], Some FileNotFoundError)"
    using list_vulnerabilities_entries [where env = "mem_env []" and st = ?st
        and k = "str ''missing''" and x = FileNotFoundError]
    by (simp add: example_listing)
  have 3: "name_format_match ascii_alnum (str ''vuln-'' @ str ''nvd'' @ str ''.json'') =
       Some (str ''nvd'')"
    using list_vulnerabilities_entries [where env = "mem_env []" and g = "str ''nvd''"]
    by (simp add: isalnum_mem_env) (simp add: is_word_def ascii_alnum_def str_def)
  from 1 2 3 show ?thesis by simp
qed

text \<open>
  Claim C6 as written fails. In \<open>/base/k\<close> three files match the pattern and the second
  has schema errors: one entry is yielded and the exception of \<open>_read\<close> ends the
  iteration, so the third file gives no entry. In \<open>/base/u\<close> the file \<open>vuln-NVD.json\<close>
  matches, and the file read is \<open>vuln-nvd.json\<close>, which is not there.
\<close>

lemma faulty_listing:
  "os_scandir (mem_env []) (path (new_storage (str ''/base'') faulty_fs) [str ''k''])
     (fs (new_storage (str ''/base'') faulty_fs)) =
     Inr [\<lparr>name = str ''vuln-nvd.json'', is_dir = False\<rparr>,
          \<lparr>name = str ''vuln-bad.json'', is_dir = False\<rparr>,
          \<lparr>name = str ''vuln-abc.json'', is_dir = False\<rparr>]"
  "os_scandir (mem_env []) (path (new_storage (str ''/base'') faulty_fs) [str ''u''])
     (fs (new_storage (str ''/base'') faulty_fs)) =
     Inr [\<lparr>name = str ''vuln-NVD.json'', is_dir = False\<rparr>]"
  by (simp_all add: mem_env_def new_storage_def faulty_fs_def path_def join_def join2_def
      str_def)

lemma faulty_read_entries:
  "read_entry (mem_env []) (str ''k'') (new_storage (str ''/base'') faulty_fs)
     \<lparr>name = str ''vuln-nvd.json'', is_dir = False\<rparr> =
     Inr (Some \<lparr>key = [], producer = [], body = str ''[1]''\<rparr>)"
  "read_entry (mem_env []) (str ''k'') (new_storage (str ''/base'') faulty_fs)
     \<lparr>name = str ''vuln-bad.json'', is_dir = False\<rparr> =
     Inl (Exception [str ''k'', str ''vuln-bad.json'']
       [(str ''key'', str ''Missing data for required field.'')])"
  "read_entry (mem_env []) (str ''u'') (new_storage (str ''/base'') faulty_fs)
     \<lparr>name = str ''vuln-NVD.json'', is_dir = False\<rparr> = Inl FileNotFoundError"
  by (simp_all add: read_entry_def isalnum_mem_env example_names read_vulnerabilities_def
      storage_read_def)
    (simp_all add: mem_env_def new_storage_def faulty_fs_def path_def join_def join2_def
      str_def ascii_lower_def)

theorem list_vulnerabilities_read_error_counterexample:
  "map name (matching (mem_env [])
      [\<lparr>name = str ''vuln-nvd.json'', is_dir = False\<rparr>,
       \<lparr>name = str ''vuln-bad.json'', is_dir = False\<rparr>,
       \<lparr>name = str ''vuln-abc.json'', is_dir = False\<rparr>]) =
     [str ''vuln-nvd.json'', str ''vuln-bad.json'', str ''vuln-abc.json'']
   \<and> fst (list_vulnerabilities (mem_env []) (str ''k'') (new_storage (str ''/base'') faulty_fs)) =
     ([Some \<lparr>key = [], producer = [], body = str ''[1]''\<rparr>],
      Some (Exception [str ''k'', str ''vuln-bad.json'']
        [(str ''key'', str ''Missing data for required field.'')]))
   \<and> map name (matching (mem_env []) [\<lparr>name = str ''vuln-NVD.json'', is_dir = False\<rparr>]) =
     [str ''vuln-NVD.json'']
   \<and> fst (list_vulnerabilities (mem_env []) (str ''u'') (new_storage (str ''/base'') faulty_fs)) =
     ([], Some FileNotFoundError)"
  by (simp add: list_vulnerabilities_eq faulty_listing matching_def isalnum_mem_env
      example_names faulty_read_entries)

end
